theory Spec2Isabelle
  imports Main
begin

unbundle bit_operations_syntax

section \<open>Granule configuration (models/granule.py)\<close>

text \<open>
  Python integers are unbounded, so addresses, descriptor words and levels are \<open>int\<close>;
  \<open>x >> n\<close> is \<open>drop_bit n x\<close>, \<open>x & m\<close> is \<open>x AND m\<close>, \<open>x | y\<close> is \<open>x OR y\<close>.
  Event counters only count upwards from zero and are \<open>nat\<close>.
\<close>

datatype GranuleType = GRANULE_4KB | GRANULE_16KB | GRANULE_64KB

text \<open>
  The frozen dataclass \<open>GranuleConfig\<close>. \<open>level_shifts\<close> is the 4-tuple of start bits,
  \<open>block_offsets\<close> the dict from level to offset mask, kept as an association list.
\<close>

record GranuleConfig =
  granule_type :: GranuleType
  page_size :: int
  offset_bits :: nat
  index_bits :: nat
  entries_per_table :: int
  level_shifts :: "nat list"
  block_offsets :: "(int \<times> int) list"
  min_level :: int

definition GRANULE_4KB_CONFIG :: GranuleConfig where
  "GRANULE_4KB_CONFIG = \<lparr>granule_type = GRANULE_4KB, page_size = 4096, offset_bits = 12,
     index_bits = 9, entries_per_table = 512, level_shifts = [39, 30, 21, 12],
     block_offsets = [(1, 0x3FFFFFFF), (2, 0x1FFFFF)], min_level = 0\<rparr>"

definition GRANULE_16KB_CONFIG :: GranuleConfig where
  "GRANULE_16KB_CONFIG = \<lparr>granule_type = GRANULE_16KB, page_size = 16384, offset_bits = 14,
     index_bits = 11, entries_per_table = 2048, level_shifts = [47, 36, 25, 14],
     block_offsets = [(2, 0x1FFFFFF)], min_level = 0\<rparr>"

definition GRANULE_64KB_CONFIG :: GranuleConfig where
  "GRANULE_64KB_CONFIG = \<lparr>granule_type = GRANULE_64KB, page_size = 65536, offset_bits = 16,
     index_bits = 13, entries_per_table = 8192, level_shifts = [0, 42, 29, 16],
     block_offsets = [(2, 0x1FFFFFFF)], min_level = 1\<rparr>"

text \<open>\<open>get_granule_config\<close> raises \<open>ValueError\<close> for any other size: \<open>None\<close>.\<close>

definition get_granule_config :: "int \<Rightarrow> GranuleConfig option" where
  "get_granule_config granule_kb =
     (if granule_kb = 4 then Some GRANULE_4KB_CONFIG
      else if granule_kb = 16 then Some GRANULE_16KB_CONFIG
      else if granule_kb = 64 then Some GRANULE_64KB_CONFIG
      else None)"

definition get_index_mask :: "nat \<Rightarrow> int" where
  "get_index_mask ib = push_bit ib 1 - 1"

definition get_offset_mask :: "nat \<Rightarrow> int" where
  "get_offset_mask ob = push_bit ob 1 - 1"

definition calculate_index :: "int \<Rightarrow> int \<Rightarrow> GranuleConfig \<Rightarrow> int" where
  "calculate_index address level config =
     (if level < min_level config \<or> level > 3 then 0
      else let shift = level_shifts config ! nat level;
               msk = get_index_mask (index_bits config)
           in if granule_type config = GRANULE_16KB \<and> level = 0
              then drop_bit shift address AND 1
              else drop_bit shift address AND msk)"

definition calculate_page_offset :: "int \<Rightarrow> GranuleConfig \<Rightarrow> int" where
  "calculate_page_offset address config = address AND get_offset_mask (offset_bits config)"

definition calculate_block_offset :: "int \<Rightarrow> int \<Rightarrow> GranuleConfig \<Rightarrow> int" where
  "calculate_block_offset address level config =
     (case map_of (block_offsets config) level of
        Some m \<Rightarrow> address AND m
      | None \<Rightarrow> calculate_page_offset address config)"

section \<open>Addresses (models/address.py)\<close>

text \<open>
  The module \<open>ptw_viz.models.address\<close> is imported by the walkers but is not among the
  sources. Its classes are used through \<open>value\<close>, \<open>get_index\<close>, \<open>page_offset\<close>,
  \<open>l1_block_offset\<close>, \<open>l2_block_offset\<close> and \<open>uses_ttbr1\<close> only. A virtual address
  carries its value, its \<open>va_bits\<close> and its granule; the walkers build intermediate
  physical and physical addresses from a bare integer, so these carry the default
  configuration and are modelled by their value.
\<close>

text \<open>Modelled from the spec: the class \<open>VirtualAddress\<close> of models/address.py, by
  section 3 ("Addresses"): a 64-bit quantity with its \<open>va_bits\<close> and its granule; the
  granule is kept as its configuration record.\<close>

record VirtualAddress =
  va_value :: int
  va_bits :: nat
  va_granule :: GranuleConfig

type_synonym IntermediatePhysicalAddress = int
type_synonym PhysicalAddress = int

text \<open>Modelled from the spec: the granule of an address built from a bare integer
  (\<open>IntermediatePhysicalAddress(current_table_ipa)\<close>); section 4.1 and the open questions
  of section 9 make the core 4 KB specific, and the parser's default granule is 4.\<close>

definition default_granule :: GranuleConfig where
  "default_granule = GRANULE_4KB_CONFIG"

text \<open>Modelled from the spec: \<open>VirtualAddress.get_index\<close>, section 4.1 \<open>index(addr, level)\<close>,
  which is \<open>calculate_index\<close> of granule.py under the address's granule.\<close>

definition va_get_index :: "VirtualAddress \<Rightarrow> int \<Rightarrow> int" where
  "va_get_index va level = calculate_index (va_value va) level (va_granule va)"

text \<open>Modelled from the spec: \<open>VirtualAddress.page_offset\<close>, section 4.1
  \<open>page_offset(addr) = addr & ((1 << offset_bits) - 1)\<close>.\<close>

definition va_page_offset :: "VirtualAddress \<Rightarrow> int" where
  "va_page_offset va = calculate_page_offset (va_value va) (va_granule va)"

text \<open>Modelled from the spec: \<open>VirtualAddress.l1_block_offset\<close>, section 4.1
  \<open>block_offset(addr, level)\<close> at level 1 (mask \<open>2^30 - 1\<close> for 4 KB).\<close>

definition va_l1_block_offset :: "VirtualAddress \<Rightarrow> int" where
  "va_l1_block_offset va = calculate_block_offset (va_value va) 1 (va_granule va)"

text \<open>Modelled from the spec: \<open>VirtualAddress.l2_block_offset\<close>, section 4.1
  \<open>block_offset(addr, level)\<close> at level 2 (mask \<open>2^21 - 1\<close> for 4 KB).\<close>

definition va_l2_block_offset :: "VirtualAddress \<Rightarrow> int" where
  "va_l2_block_offset va = calculate_block_offset (va_value va) 2 (va_granule va)"

text \<open>Modelled from the spec: \<open>VirtualAddress.uses_ttbr1\<close>, section 4.1: the top
  \<open>64 - va_bits\<close> bits of the 64-bit value are all set.\<close>

definition uses_ttbr1 :: "VirtualAddress \<Rightarrow> bool" where
  "uses_ttbr1 va \<longleftrightarrow>
     drop_bit (va_bits va) (va_value va) = push_bit (64 - va_bits va) 1 - 1"

text \<open>Modelled from the spec: the same views on an intermediate physical address, under
  the default granule.\<close>

definition ipa_get_index :: "IntermediatePhysicalAddress \<Rightarrow> int \<Rightarrow> int" where
  "ipa_get_index ipa level = calculate_index ipa level default_granule"

text \<open>Modelled from the spec: \<open>IntermediatePhysicalAddress.page_offset\<close>.\<close>

definition ipa_page_offset :: "IntermediatePhysicalAddress \<Rightarrow> int" where
  "ipa_page_offset ipa = calculate_page_offset ipa default_granule"

text \<open>Modelled from the spec: \<open>IntermediatePhysicalAddress.l1_block_offset\<close>.\<close>

definition ipa_l1_block_offset :: "IntermediatePhysicalAddress \<Rightarrow> int" where
  "ipa_l1_block_offset ipa = calculate_block_offset ipa 1 default_granule"

text \<open>Modelled from the spec: \<open>IntermediatePhysicalAddress.l2_block_offset\<close>.\<close>

definition ipa_l2_block_offset :: "IntermediatePhysicalAddress \<Rightarrow> int" where
  "ipa_l2_block_offset ipa = calculate_block_offset ipa 2 default_granule"

text \<open>Modelled from the spec: \<open>calculate_descriptor_address\<close>, section 4.1
  "Descriptor address: \<open>table_base + index * 8\<close>", the width being the argument
  \<open>descriptor_size\<close> that both walkers pass as 8.\<close>

definition calculate_descriptor_address :: "int \<Rightarrow> int \<Rightarrow> int \<Rightarrow> int" where
  "calculate_descriptor_address table_base index descriptor_size =
     table_base + index * descriptor_size"

section \<open>Descriptors (models/descriptor.py)\<close>

datatype DescriptorType = INVALID | TABLE | BLOCK | PAGE

text \<open>The \<open>name\<close> of an enum member, as stored in \<open>WalkEvent.result\<close>.\<close>

fun DescriptorType_name :: "DescriptorType \<Rightarrow> string" where
  "DescriptorType_name INVALID = ''INVALID''"
| "DescriptorType_name TABLE = ''TABLE''"
| "DescriptorType_name BLOCK = ''BLOCK''"
| "DescriptorType_name PAGE = ''PAGE''"

text \<open>
  The dataclass \<open>Descriptor\<close>. The subclasses \<open>TableDescriptor\<close>, \<open>PageDescriptor\<close> and
  \<open>BlockDescriptor\<close> add no field, only read-only views, which are functions on the
  same record here.
\<close>

record Descriptor =
  d_value :: int
  d_level :: int
  d_is_stage2 :: bool

definition is_valid :: "Descriptor \<Rightarrow> bool" where
  "is_valid d \<longleftrightarrow> d_value d AND 0x1 = 1"

definition is_table :: "Descriptor \<Rightarrow> bool" where
  "is_table d \<longleftrightarrow> d_level d < 3 \<and> d_value d AND 0x3 = 3"

definition is_block :: "Descriptor \<Rightarrow> bool" where
  "is_block d \<longleftrightarrow> (d_level d = 1 \<or> d_level d = 2) \<and> d_value d AND 0x3 = 1"

definition is_page :: "Descriptor \<Rightarrow> bool" where
  "is_page d \<longleftrightarrow> d_level d = 3 \<and> d_value d AND 0x3 = 3"

definition descriptor_type :: "Descriptor \<Rightarrow> DescriptorType" where
  "descriptor_type d =
     (if \<not> is_valid d then INVALID
      else if is_table d then TABLE
      else if is_block d then BLOCK
      else if is_page d then PAGE
      else INVALID)"

definition next_table_address :: "Descriptor \<Rightarrow> int" where
  "next_table_address d = d_value d AND 0x0000FFFFFFFFF000"

definition ns_table :: "Descriptor \<Rightarrow> bool" where
  "ns_table d \<longleftrightarrow> drop_bit 63 (d_value d) AND 1 \<noteq> 0"

definition ap_table :: "Descriptor \<Rightarrow> int" where
  "ap_table d = drop_bit 61 (d_value d) AND 0x3"

definition uxn_table :: "Descriptor \<Rightarrow> bool" where
  "uxn_table d \<longleftrightarrow> drop_bit 60 (d_value d) AND 1 \<noteq> 0"

definition pxn_table :: "Descriptor \<Rightarrow> bool" where
  "pxn_table d \<longleftrightarrow> drop_bit 59 (d_value d) AND 1 \<noteq> 0"

text \<open>\<open>PageDescriptor.output_address\<close> and \<open>BlockDescriptor.output_address\<close>.\<close>

definition page_output_address :: "Descriptor \<Rightarrow> int" where
  "page_output_address d = d_value d AND 0x0000FFFFFFFFF000"

definition block_output_address :: "Descriptor \<Rightarrow> int" where
  "block_output_address d =
     (if d_level d = 1 then d_value d AND 0x0000FFFFC0000000
      else if d_level d = 2 then d_value d AND 0x0000FFFFFFE00000
      else d_value d AND 0x0000FFFFFFFFF000)"

text \<open>\<open>ap\<close>, \<open>uxn\<close> and \<open>pxn\<close> are the same bit slices on page and block descriptors.\<close>

definition ap :: "Descriptor \<Rightarrow> int" where
  "ap d = drop_bit 6 (d_value d) AND 0x3"

definition uxn :: "Descriptor \<Rightarrow> bool" where
  "uxn d \<longleftrightarrow> drop_bit 54 (d_value d) AND 1 \<noteq> 0"

definition pxn :: "Descriptor \<Rightarrow> bool" where
  "pxn d \<longleftrightarrow> drop_bit 53 (d_value d) AND 1 \<noteq> 0"

text \<open>
  \<open>create_descriptor\<close> picks the subclass by the same tests as \<open>descriptor_type\<close>; every
  branch builds an object with the given value, level and stage flag.
\<close>

definition create_descriptor :: "int \<Rightarrow> int \<Rightarrow> bool \<Rightarrow> Descriptor" where
  "create_descriptor v level s2 = \<lparr>d_value = v, d_level = level, d_is_stage2 = s2\<rparr>"

record AccessPermissions =
  read_el0 :: bool
  write_el0 :: bool
  read_el1 :: bool
  write_el1 :: bool
  execute_el0 :: bool
  execute_el1 :: bool

definition from_ap_bits :: "int \<Rightarrow> bool \<Rightarrow> bool \<Rightarrow> AccessPermissions" where
  "from_ap_bits a u p =
     (if a = 0 then
        \<lparr>read_el0 = False, write_el0 = False, read_el1 = True, write_el1 = True,
         execute_el0 = \<not> u, execute_el1 = \<not> p\<rparr>
      else if a = 1 then
        \<lparr>read_el0 = True, write_el0 = True, read_el1 = True, write_el1 = True,
         execute_el0 = \<not> u, execute_el1 = \<not> p\<rparr>
      else if a = 2 then
        \<lparr>read_el0 = False, write_el0 = False, read_el1 = True, write_el1 = False,
         execute_el0 = \<not> u, execute_el1 = \<not> p\<rparr>
      else
        \<lparr>read_el0 = True, write_el0 = False, read_el1 = True, write_el1 = False,
         execute_el0 = \<not> u, execute_el1 = \<not> p\<rparr>)"

section \<open>Faults (simulator/faults.py)\<close>

datatype FaultType =
  TRANSLATION_FAULT | PERMISSION_FAULT | ADDRESS_SIZE_FAULT | ACCESS_FLAG_FAULT

datatype AccessType = READ | WRITE | EXECUTE

text \<open>The dataclass \<open>FaultRecord\<close>; the free-text \<open>message\<close> is left out.\<close>

record FaultRecord =
  fault_type :: FaultType
  f_stage :: int
  f_level :: int
  f_address :: int
  f_access_type :: "AccessType option"
  far_el1 :: "int option"
  far_el2 :: "int option"

definition check_permission :: "AccessType \<Rightarrow> int \<Rightarrow> bool \<Rightarrow> bool \<Rightarrow> bool \<Rightarrow> bool" where
  "check_permission access_type a u p is_el0 =
     (if access_type = EXECUTE then (if is_el0 then \<not> u else \<not> p)
      else if is_el0 then
        (if access_type = READ then a = 1 \<or> a = 3 else a = 1)
      else
        (if access_type = READ then True else a = 0 \<or> a = 1))"

definition check_stage2_permission :: "AccessType \<Rightarrow> int \<Rightarrow> bool \<Rightarrow> bool" where
  "check_stage2_permission access_type s2ap xn =
     (if access_type = EXECUTE then \<not> xn
      else if access_type = READ then s2ap = 1 \<or> s2ap = 3
      else s2ap = 2 \<or> s2ap = 3)"

section \<open>Stage 2 walker (simulator/stage2.py)\<close>

text \<open>The dataclass \<open>Stage2WalkEvent\<close>; the free-text \<open>description\<close> is left out.\<close>

record Stage2WalkEvent =
  s2e_event_id :: nat
  s2e_level :: int
  s2e_table_base_pa :: int
  s2e_index :: int
  s2e_descriptor_address :: int
  s2e_descriptor_value :: int
  s2e_descriptor_type :: DescriptorType
  s2e_output_address :: int

record Stage2WalkResult =
  s2_success :: bool
  s2_input_ipa :: IntermediatePhysicalAddress
  s2_output_pa :: "PhysicalAddress option"
  s2_events :: "Stage2WalkEvent list"
  s2_fault :: "FaultRecord option"

text \<open>
  The walker object. Its translation table is the dict \<open>PA \<rightarrow> descriptor\<close>; its event
  counter is the only field a walk changes, so a walk returns the walker as well.
\<close>

record Stage2Walker =
  vttbr_base :: int
  s2w_starting_level :: int
  s2w_translation_tables :: "int \<rightharpoonup> int"
  s2w_event_counter :: nat

text \<open>\<open>_read_descriptor\<close>: \<open>self.translation_tables.get(address, 0)\<close>.\<close>

definition read_descriptor :: "(int \<rightharpoonup> int) \<Rightarrow> int \<Rightarrow> int" where
  "read_descriptor tables address = (case tables address of Some v \<Rightarrow> v | None \<Rightarrow> 0)"

definition s2_reset_event_counter :: "Stage2Walker \<Rightarrow> Stage2Walker" where
  "s2_reset_event_counter w = w\<lparr>s2w_event_counter := 0\<rparr>"

definition s2_set_event_counter :: "Stage2Walker \<Rightarrow> nat \<Rightarrow> Stage2Walker" where
  "s2_set_event_counter w n = w\<lparr>s2w_event_counter := n\<rparr>"

text \<open>
  The body of \<open>for level in range(self.starting_level, 4)\<close> of \<open>Stage2Walker.walk\<close>, as a
  recursion over the levels still to visit, with the loop variables \<open>current_table_pa\<close>
  and \<open>events\<close>. A valid descriptor that is neither table, page nor block (bits \<open>01\<close> at
  level 0 or 3) matches no branch: its event is not appended and the loop goes on with
  the same table. The empty list is the code after the loop.
\<close>

fun s2_walk_levels ::
  "Stage2Walker \<Rightarrow> IntermediatePhysicalAddress \<Rightarrow> int list \<Rightarrow> int \<Rightarrow> Stage2WalkEvent list
     \<Rightarrow> Stage2WalkResult \<times> Stage2Walker" where
  "s2_walk_levels w ipa [] current_table_pa events =
     (\<lparr>s2_success = False, s2_input_ipa = ipa, s2_output_pa = None, s2_events = events,
       s2_fault = Some \<lparr>fault_type = TRANSLATION_FAULT, f_stage = 2, f_level = 3,
         f_address = ipa, f_access_type = None, far_el1 = None, far_el2 = None\<rparr>\<rparr>, w)"
| "s2_walk_levels w ipa (level # rest) current_table_pa events =
     (let index = ipa_get_index ipa level;
          descriptor_addr = calculate_descriptor_address current_table_pa index 8;
          descriptor_value = read_descriptor (s2w_translation_tables w) descriptor_addr;
          descriptor = create_descriptor descriptor_value level True;
          w1 = w\<lparr>s2w_event_counter := s2w_event_counter w + 1\<rparr>;
          event = \<lparr>s2e_event_id = s2w_event_counter w1, s2e_level = level,
                   s2e_table_base_pa = current_table_pa, s2e_index = index,
                   s2e_descriptor_address = descriptor_addr,
                   s2e_descriptor_value = descriptor_value,
                   s2e_descriptor_type = descriptor_type descriptor,
                   s2e_output_address = 0\<rparr>
      in if \<not> is_valid descriptor then
           (\<lparr>s2_success = False, s2_input_ipa = ipa, s2_output_pa = None,
             s2_events = events @ [event],
             s2_fault = Some \<lparr>fault_type = TRANSLATION_FAULT, f_stage = 2, f_level = level,
               f_address = ipa, f_access_type = None, far_el1 = None, far_el2 = Some ipa\<rparr>\<rparr>, w1)
         else if is_table descriptor then
           (let table_pa = next_table_address descriptor
            in s2_walk_levels w1 ipa rest table_pa
                 (events @ [event\<lparr>s2e_output_address := table_pa\<rparr>]))
         else if is_page descriptor \<or> is_block descriptor then
           (let output_base = (if is_block descriptor then block_output_address descriptor
                               else page_output_address descriptor);
                final_pa = (if d_level descriptor = 1 then output_base OR ipa_l1_block_offset ipa
                            else if d_level descriptor = 2
                              then output_base OR ipa_l2_block_offset ipa
                            else output_base OR ipa_page_offset ipa)
            in (\<lparr>s2_success = True, s2_input_ipa = ipa, s2_output_pa = Some final_pa,
                 s2_events = events @ [event\<lparr>s2e_output_address := output_base\<rparr>],
                 s2_fault = None\<rparr>, w1))
         else s2_walk_levels w1 ipa rest current_table_pa events)"

text \<open>\<open>Stage2Walker.walk\<close>; \<open>range(start, 4)\<close> is \<open>[start..3]\<close>. The access type is
  accepted and never read.\<close>

definition Stage2Walker_walk ::
  "Stage2Walker \<Rightarrow> IntermediatePhysicalAddress \<Rightarrow> AccessType
     \<Rightarrow> Stage2WalkResult \<times> Stage2Walker" where
  "Stage2Walker_walk w ipa access_type =
     s2_walk_levels w ipa [s2w_starting_level w..3] (vttbr_base w) []"

section \<open>Stage 1 walker (simulator/stage1.py)\<close>

record Stage1WalkEvent =
  s1e_event_id :: nat
  s1e_level :: int
  s1e_table_base_ipa :: int
  s1e_table_base_pa :: int
  s1e_index :: int
  s1e_descriptor_address_pa :: int
  s1e_descriptor_value :: int
  s1e_descriptor_type :: DescriptorType
  s1e_output_address :: int
  s1e_s2_events :: "Stage2WalkEvent list"

record Stage1WalkResult =
  s1_success :: bool
  s1_input_va :: VirtualAddress
  s1_output_ipa :: "IntermediatePhysicalAddress option"
  s1_events :: "Stage1WalkEvent list"
  s1_fault :: "FaultRecord option"
  s1_final_permissions :: "AccessPermissions option"

record Stage1Walker =
  ttbr_base :: int
  stage2_walker :: Stage2Walker
  s1w_starting_level :: int
  s1w_translation_tables :: "int \<rightharpoonup> int"
  s1w_event_counter :: nat

definition s1_reset_event_counter :: "Stage1Walker \<Rightarrow> Stage1Walker" where
  "s1_reset_event_counter w = w\<lparr>s1w_event_counter := 0\<rparr>"

text \<open>
  The loop of \<open>Stage1Walker.walk\<close> over the levels still to visit, with the loop
  variables \<open>current_table_ipa\<close>, \<open>uxn_limit\<close>, \<open>pxn_limit\<close>, \<open>ap_limit\<close> and \<open>events\<close>.
  The nested stage-2 walk runs on the walker's own stage-2 walker and advances its
  counter. As in stage 2, a valid descriptor matching no branch leaves no event.
\<close>

fun s1_walk_levels ::
  "Stage1Walker \<Rightarrow> VirtualAddress \<Rightarrow> AccessType \<Rightarrow> bool \<Rightarrow> int list \<Rightarrow> int \<Rightarrow> bool \<Rightarrow> bool
     \<Rightarrow> int \<Rightarrow> Stage1WalkEvent list \<Rightarrow> Stage1WalkResult \<times> Stage1Walker" where
  "s1_walk_levels w va access_type is_el0 [] current_table_ipa uxn_limit pxn_limit ap_limit
       events =
     (\<lparr>s1_success = False, s1_input_va = va, s1_output_ipa = None, s1_events = events,
       s1_fault = Some \<lparr>fault_type = TRANSLATION_FAULT, f_stage = 1, f_level = 3,
         f_address = va_value va, f_access_type = None, far_el1 = None, far_el2 = None\<rparr>,
       s1_final_permissions = None\<rparr>, w)"
| "s1_walk_levels w va access_type is_el0 (level # rest) current_table_ipa uxn_limit
       pxn_limit ap_limit events =
     (let index = va_get_index va level;
          (s2_result, s2w) = Stage2Walker_walk (stage2_walker w) current_table_ipa access_type;
          w0 = w\<lparr>stage2_walker := s2w\<rparr>
      in if \<not> s2_success s2_result then
           (let w1 = w0\<lparr>s1w_event_counter := s1w_event_counter w0 + 1\<rparr>;
                event = \<lparr>s1e_event_id = s1w_event_counter w1, s1e_level = level,
                         s1e_table_base_ipa = current_table_ipa, s1e_table_base_pa = 0,
                         s1e_index = index, s1e_descriptor_address_pa = 0,
                         s1e_descriptor_value = 0, s1e_descriptor_type = INVALID,
                         s1e_output_address = 0, s1e_s2_events = s2_events s2_result\<rparr>
            in (\<lparr>s1_success = False, s1_input_va = va, s1_output_ipa = None,
                 s1_events = events @ [event], s1_fault = s2_fault s2_result,
                 s1_final_permissions = None\<rparr>, w1))
         else
           (let table_pa = the (s2_output_pa s2_result);
                descriptor_pa = calculate_descriptor_address table_pa index 8;
                descriptor_value = read_descriptor (s1w_translation_tables w0) descriptor_pa;
                descriptor = create_descriptor descriptor_value level False;
                w1 = w0\<lparr>s1w_event_counter := s1w_event_counter w0 + 1\<rparr>;
                event = \<lparr>s1e_event_id = s1w_event_counter w1, s1e_level = level,
                         s1e_table_base_ipa = current_table_ipa, s1e_table_base_pa = table_pa,
                         s1e_index = index, s1e_descriptor_address_pa = descriptor_pa,
                         s1e_descriptor_value = descriptor_value,
                         s1e_descriptor_type = descriptor_type descriptor,
                         s1e_output_address = 0, s1e_s2_events = s2_events s2_result\<rparr>
            in if \<not> is_valid descriptor then
                 (\<lparr>s1_success = False, s1_input_va = va, s1_output_ipa = None,
                   s1_events = events @ [event],
                   s1_fault = Some \<lparr>fault_type = TRANSLATION_FAULT, f_stage = 1,
                     f_level = level, f_address = va_value va, f_access_type = None,
                     far_el1 = Some (va_value va), far_el2 = None\<rparr>,
                   s1_final_permissions = None\<rparr>, w1)
               else if is_table descriptor then
                 (let table_ipa = next_table_address descriptor;
                      uxn_limit1 = (if uxn_table descriptor then True else uxn_limit);
                      pxn_limit1 = (if pxn_table descriptor then True else pxn_limit);
                      ap_limit1 = (if ap_table descriptor \<noteq> 0
                                   then max ap_limit (ap_table descriptor) else ap_limit)
                  in s1_walk_levels w1 va access_type is_el0 rest table_ipa uxn_limit1
                       pxn_limit1 ap_limit1
                       (events @ [event\<lparr>s1e_output_address := table_ipa\<rparr>]))
               else if is_page descriptor \<or> is_block descriptor then
                 (let output_base = (if is_block descriptor
                                     then block_output_address descriptor
                                     else page_output_address descriptor);
                      final_ipa = (if d_level descriptor = 1
                                     then output_base OR va_l1_block_offset va
                                   else if d_level descriptor = 2
                                     then output_base OR va_l2_block_offset va
                                   else output_base OR va_page_offset va);
                      final_uxn = (uxn descriptor \<or> uxn_limit);
                      final_pxn = (pxn descriptor \<or> pxn_limit);
                      final_ap = ap descriptor
                  in if \<not> check_permission access_type final_ap final_uxn final_pxn is_el0
                     then
                       (\<lparr>s1_success = False, s1_input_va = va, s1_output_ipa = None,
                         s1_events = events @ [event],
                         s1_fault = Some \<lparr>fault_type = PERMISSION_FAULT, f_stage = 1,
                           f_level = level, f_address = va_value va,
                           f_access_type = Some access_type,
                           far_el1 = Some (va_value va), far_el2 = None\<rparr>,
                         s1_final_permissions = None\<rparr>, w1)
                     else
                       (\<lparr>s1_success = True, s1_input_va = va, s1_output_ipa = Some final_ipa,
                         s1_events = events @ [event\<lparr>s1e_output_address := output_base\<rparr>],
                         s1_fault = None,
                         s1_final_permissions =
                           Some (from_ap_bits final_ap final_uxn final_pxn)\<rparr>, w1))
               else s1_walk_levels w1 va access_type is_el0 rest current_table_ipa uxn_limit
                      pxn_limit ap_limit events))"

definition Stage1Walker_walk ::
  "Stage1Walker \<Rightarrow> VirtualAddress \<Rightarrow> AccessType \<Rightarrow> bool
     \<Rightarrow> Stage1WalkResult \<times> Stage1Walker" where
  "Stage1Walker_walk w va access_type is_el0 =
     s1_walk_levels w va access_type is_el0 [s1w_starting_level w..3] (ttbr_base w)
       False False 0 []"

section \<open>Registers (models/registers.py)\<close>

text \<open>The register dataclasses, with the fields the walk reads (display names and the
  granule and address-size fields of TCR and VTCR are never read by it).\<close>

record TTBR =
  ttbr_value :: int

definition baddr :: "TTBR \<Rightarrow> int" where
  "baddr r = ttbr_value r AND 0x0000FFFFFFFFFFFE"

record TCR =
  t0sz :: int
  t1sz :: int

definition va_bits_t0 :: "TCR \<Rightarrow> int" where
  "va_bits_t0 r = 64 - t0sz r"

definition va_bits_t1 :: "TCR \<Rightarrow> int" where
  "va_bits_t1 r = 64 - t1sz r"

definition TCR_starting_level :: "TCR \<Rightarrow> bool \<Rightarrow> int" where
  "TCR_starting_level r for_ttbr1 =
     (let vb = (if for_ttbr1 then va_bits_t1 r else va_bits_t0 r)
      in if vb \<ge> 40 then 0 else if vb \<ge> 31 then 1 else 2)"

record VTCR =
  vtcr_t0sz :: int
  sl0 :: int

definition VTCR_starting_level :: "VTCR \<Rightarrow> int" where
  "VTCR_starting_level r = sl0 r"

record RegisterState =
  ttbr0_el1 :: TTBR
  ttbr1_el1 :: TTBR
  vttbr_el2 :: TTBR
  tcr_el1 :: TCR
  vtcr_el2 :: VTCR

definition get_stage1_table_base :: "RegisterState \<Rightarrow> bool \<Rightarrow> int" where
  "get_stage1_table_base rs u = baddr (if u then ttbr1_el1 rs else ttbr0_el1 rs)"

definition get_stage2_table_base :: "RegisterState \<Rightarrow> int" where
  "get_stage2_table_base rs = baddr (vttbr_el2 rs)"

section \<open>Orchestrator (simulator/walker.py)\<close>

datatype WalkStatus = SUCCESS | S1_FAULT | S2_FAULT | S2_FINAL_FAULT

text \<open>The three formatted \<open>purpose\<close> strings, by their format arguments: the stage-1
  level and table IPA, the stage-1 level, the stage-2 level and final IPA.\<close>

datatype Purpose =
  S2_for_S1_table int int
| S1_lookup int
| Final_S2 int int

record WalkEvent =
  we_event_id :: nat
  we_event_type :: string
  we_stage :: int
  we_level :: int
  we_purpose :: Purpose
  we_address :: int
  we_descriptor_value :: int
  we_result :: string
  we_output :: int

text \<open>The dataclass \<open>WalkResult\<close>; \<open>final_attributes\<close> is never set by \<open>walk\<close> and the
  register snapshots are display data, both left out.\<close>

record WalkResult =
  wr_status :: WalkStatus
  wr_input_va :: VirtualAddress
  wr_output_pa :: "PhysicalAddress option"
  wr_ipa :: "IntermediatePhysicalAddress option"
  wr_events :: "WalkEvent list"
  wr_s1_result :: "Stage1WalkResult option"
  wr_s2_final_result :: "Stage2WalkResult option"
  wr_total_memory_accesses :: nat
  wr_fault :: "FaultRecord option"
  wr_final_permissions :: "AccessPermissions option"

record PageTableWalker =
  register_state :: RegisterState
  s1_tables :: "int \<rightharpoonup> int"
  s2_tables :: "int \<rightharpoonup> int"
  pw_stage2_walker :: Stage2Walker

text \<open>\<open>PageTableWalker.__init__\<close>; an absent table argument is the empty dict.\<close>

definition PageTableWalker_init ::
  "RegisterState \<Rightarrow> (int \<rightharpoonup> int) \<Rightarrow> (int \<rightharpoonup> int) \<Rightarrow> PageTableWalker" where
  "PageTableWalker_init rs s1t s2t =
     \<lparr>register_state = rs, s1_tables = s1t, s2_tables = s2t,
      pw_stage2_walker = \<lparr>vttbr_base = get_stage2_table_base rs,
        s2w_starting_level = VTCR_starting_level (vtcr_el2 rs),
        s2w_translation_tables = s2t, s2w_event_counter = 0\<rparr>\<rparr>"

text \<open>
  The two loops of \<open>walk\<close> that turn stage-2 events into \<open>WalkEvent\<close>s differ in the
  purpose string only, which is the parameter \<open>purpose\<close> here. Both return the extended
  list and the advanced \<open>event_counter\<close>.
\<close>

fun append_s2_events ::
  "(Stage2WalkEvent \<Rightarrow> Purpose) \<Rightarrow> Stage2WalkEvent list \<Rightarrow> WalkEvent list \<Rightarrow> nat
     \<Rightarrow> WalkEvent list \<times> nat" where
  "append_s2_events purpose [] events event_counter = (events, event_counter)"
| "append_s2_events purpose (s2_event # rest) events event_counter =
     (let event_counter1 = event_counter + 1
      in append_s2_events purpose rest
           (events @ [\<lparr>we_event_id = event_counter1, we_event_type = ''T'', we_stage = 2,
              we_level = s2e_level s2_event, we_purpose = purpose s2_event,
              we_address = s2e_descriptor_address s2_event,
              we_descriptor_value = s2e_descriptor_value s2_event,
              we_result = DescriptorType_name (s2e_descriptor_type s2_event),
              we_output = s2e_output_address s2_event\<rparr>])
           event_counter1)"

text \<open>\<open>for s1_event in s1_result.events\<close>: the nested stage-2 events first, then the
  stage-1 event itself.\<close>

fun flatten_s1_events ::
  "Stage1WalkEvent list \<Rightarrow> WalkEvent list \<Rightarrow> nat \<Rightarrow> WalkEvent list \<times> nat" where
  "flatten_s1_events [] events event_counter = (events, event_counter)"
| "flatten_s1_events (s1_event # rest) events event_counter =
     (let (events1, event_counter1) =
            append_s2_events
              (\<lambda>_. S2_for_S1_table (s1e_level s1_event) (s1e_table_base_ipa s1_event))
              (s1e_s2_events s1_event) events event_counter;
          event_counter2 = event_counter1 + 1
      in flatten_s1_events rest
           (events1 @ [\<lparr>we_event_id = event_counter2, we_event_type = ''T'', we_stage = 1,
              we_level = s1e_level s1_event, we_purpose = S1_lookup (s1e_level s1_event),
              we_address = s1e_descriptor_address_pa s1_event,
              we_descriptor_value = s1e_descriptor_value s1_event,
              we_result = DescriptorType_name (s1e_descriptor_type s1_event),
              we_output = s1e_output_address s1_event\<rparr>])
           event_counter2)"

text \<open>
  \<open>PageTableWalker.walk\<close>. The stage-1 walker is built around the orchestrator's own
  stage-2 walker object, whose counter is reset before the stage-1 walk and set to the
  global counter before the final walk; the walker is returned with that object
  updated. A failed stage-1 walk gives status \<open>S1_FAULT\<close> whatever its fault record.
\<close>

definition PageTableWalker_walk ::
  "PageTableWalker \<Rightarrow> VirtualAddress \<Rightarrow> AccessType \<Rightarrow> bool \<Rightarrow> WalkResult \<times> PageTableWalker"
  where
  "PageTableWalker_walk self va access_type is_el0 =
     (let u = uses_ttbr1 va;
          base = get_stage1_table_base (register_state self) u;
          stage1_walker = s1_reset_event_counter
            \<lparr>ttbr_base = base,
             stage2_walker = s2_reset_event_counter (pw_stage2_walker self),
             s1w_starting_level = TCR_starting_level (tcr_el1 (register_state self)) u,
             s1w_translation_tables = s1_tables self, s1w_event_counter = 0\<rparr>;
          (s1_result, stage1_walker1) = Stage1Walker_walk stage1_walker va access_type is_el0;
          (events, event_counter) = flatten_s1_events (s1_events s1_result) [] 0;
          self1 = self\<lparr>pw_stage2_walker := stage2_walker stage1_walker1\<rparr>
      in if \<not> s1_success s1_result then
           (\<lparr>wr_status = S1_FAULT, wr_input_va = va, wr_output_pa = None, wr_ipa = None,
             wr_events = events, wr_s1_result = Some s1_result, wr_s2_final_result = None,
             wr_total_memory_accesses = event_counter, wr_fault = s1_fault s1_result,
             wr_final_permissions = None\<rparr>, self1)
         else
           (let ipa = s1_output_ipa s1_result;
                (s2_result, s2w) =
                  Stage2Walker_walk
                    (s2_set_event_counter (pw_stage2_walker self1) event_counter)
                    (the ipa) access_type;
                self2 = self1\<lparr>pw_stage2_walker := s2w\<rparr>;
                (events1, event_counter1) =
                  append_s2_events (\<lambda>e. Final_S2 (s2e_level e) (the ipa))
                    (s2_events s2_result) events event_counter
            in if \<not> s2_success s2_result then
                 (\<lparr>wr_status = S2_FINAL_FAULT, wr_input_va = va, wr_output_pa = None,
                   wr_ipa = ipa, wr_events = events1, wr_s1_result = Some s1_result,
                   wr_s2_final_result = Some s2_result,
                   wr_total_memory_accesses = event_counter1, wr_fault = s2_fault s2_result,
                   wr_final_permissions = s1_final_permissions s1_result\<rparr>, self2)
               else
                 (\<lparr>wr_status = SUCCESS, wr_input_va = va,
                   wr_output_pa = s2_output_pa s2_result, wr_ipa = ipa, wr_events = events1,
                   wr_s1_result = Some s1_result, wr_s2_final_result = Some s2_result,
                   wr_total_memory_accesses = event_counter1, wr_fault = None,
                   wr_final_permissions = s1_final_permissions s1_result\<rparr>, self2)))"

section \<open>Concrete scenarios\<close>

text \<open>
  The register state, tables and address of the happy-path scenario: 4 KB granule,
  48-bit VA and IPA, stage-2 walks starting at level 0. Stage 1 chains TABLE
  descriptors at L0, L1 and L2 through the IPAs \<open>0x4001000\<close>, \<open>0x4002000\<close> and
  \<open>0x4003000\<close> to a PAGE at L3 with output \<open>0x50000000\<close> and \<open>AP = 01\<close>; stage 2
  maps every IPA used to itself by an L3 page.
\<close>

definition scenario_regs :: RegisterState where
  "scenario_regs =
     \<lparr>ttbr0_el1 = \<lparr>ttbr_value = 0x0000000040000000\<rparr>,
      ttbr1_el1 = \<lparr>ttbr_value = 0x0000000080000000\<rparr>,
      vttbr_el2 = \<lparr>ttbr_value = 0x0000000100000000\<rparr>,
      tcr_el1 = \<lparr>t0sz = 16, t1sz = 16\<rparr>,
      vtcr_el2 = \<lparr>vtcr_t0sz = 16, sl0 = 0\<rparr>\<rparr>"

definition scenario_va :: VirtualAddress where
  "scenario_va = \<lparr>va_value = 0x0000000040201030, va_bits = 48,
     va_granule = GRANULE_4KB_CONFIG\<rparr>"

definition happy_s1_list :: "(int \<times> int) list" where
  "happy_s1_list =
     [(0x40000000, 0x4001003),
      (0x4001008, 0x4002003),
      (0x4002008, 0x4003003),
      (0x4003008, 0x50000443)]"

definition happy_s2_list :: "(int \<times> int) list" where
  "happy_s2_list =
     [(0x100000000, 0x100001003),
      (0x100001000, 0x100002003),
      (0x100001008, 0x100003003),
      (0x100002100, 0x100004003),
      (0x100003000, 0x100005003),
      (0x100003400, 0x100006003),
      (0x100004008, 0x40014C3),
      (0x100004010, 0x40024C3),
      (0x100004018, 0x40034C3),
      (0x100005000, 0x400004C3),
      (0x100006000, 0x500004C3)]"

definition happy_walker :: PageTableWalker where
  "happy_walker =
     PageTableWalker_init scenario_regs (map_of happy_s1_list) (map_of happy_s2_list)"

text \<open>Variants of the scenario: the stage-2 L3 entry for the stage-1 L1 table (IPA
  \<open>0x4001000\<close>) missing; the stage-1 L2 descriptor missing; the leaf page with \<open>AP = 10\<close>;
  the stage-2 L3 entry for the final IPA missing; a 2 MB block with output
  \<open>0x80000000\<close> at stage-1 L2, with a VA whose low 21 bits are \<open>0x15030\<close>.\<close>

definition s2fault_walker :: PageTableWalker where
  "s2fault_walker =
     PageTableWalker_init scenario_regs (map_of happy_s1_list)
       ((map_of happy_s2_list)(0x100004008 := None))"

definition s1fault_walker :: PageTableWalker where
  "s1fault_walker =
     PageTableWalker_init scenario_regs ((map_of happy_s1_list)(0x4002008 := None))
       (map_of happy_s2_list)"

definition perm_walker :: PageTableWalker where
  "perm_walker =
     PageTableWalker_init scenario_regs ((map_of happy_s1_list)(0x4003008 \<mapsto> 0x50000483))
       (map_of happy_s2_list)"

definition s2final_walker :: PageTableWalker where
  "s2final_walker =
     PageTableWalker_init scenario_regs (map_of happy_s1_list)
       ((map_of happy_s2_list)(0x100006000 := None))"

definition block_walker :: PageTableWalker where
  "block_walker =
     PageTableWalker_init scenario_regs ((map_of happy_s1_list)(0x4002008 \<mapsto> 0x80000441))
       (map_of happy_s2_list)"

definition block_va :: VirtualAddress where
  "block_va = \<lparr>va_value = 0x0000000040215030, va_bits = 48,
     va_granule = GRANULE_4KB_CONFIG\<rparr>"

text \<open>The happy-path tables with the stage-1 L0 table descriptor carrying
  \<open>APTable = 11\<close> and \<open>UXNTable = 1\<close> (bits 62, 61 and 60).\<close>

definition limits_walker :: PageTableWalker where
  "limits_walker =
     PageTableWalker_init scenario_regs
       ((map_of happy_s1_list)(0x40000000 \<mapsto> 0x7000000004001003))
       (map_of happy_s2_list)"

section \<open>Loop bodies in closed form\<close>

text \<open>
  Names for the parts of one loop iteration, so that the proofs below can unfold the
  walkers one level at a time: the walker after the iteration, the descriptor it
  fetched, the event it built and the address a leaf yields.
\<close>

definition s2_bump :: "Stage2Walker \<Rightarrow> Stage2Walker" where
  "s2_bump w = w\<lparr>s2w_event_counter := s2w_event_counter w + 1\<rparr>"

definition s2_desc :: "Stage2Walker \<Rightarrow> int \<Rightarrow> int \<Rightarrow> int \<Rightarrow> Descriptor" where
  "s2_desc w ipa level cur =
     create_descriptor
       (read_descriptor (s2w_translation_tables w)
          (calculate_descriptor_address cur (ipa_get_index ipa level) 8)) level True"

definition s2_event :: "Stage2Walker \<Rightarrow> int \<Rightarrow> int \<Rightarrow> int \<Rightarrow> int \<Rightarrow> Stage2WalkEvent" where
  "s2_event w ipa level cur out =
     \<lparr>s2e_event_id = s2w_event_counter w + 1, s2e_level = level,
      s2e_table_base_pa = cur, s2e_index = ipa_get_index ipa level,
      s2e_descriptor_address = calculate_descriptor_address cur (ipa_get_index ipa level) 8,
      s2e_descriptor_value = d_value (s2_desc w ipa level cur),
      s2e_descriptor_type = descriptor_type (s2_desc w ipa level cur),
      s2e_output_address = out\<rparr>"

definition s2_leaf_base :: "Descriptor \<Rightarrow> int" where
  "s2_leaf_base d = (if is_block d then block_output_address d else page_output_address d)"

definition s2_leaf_pa :: "Descriptor \<Rightarrow> int \<Rightarrow> int" where
  "s2_leaf_pa d ipa =
     (if d_level d = 1 then s2_leaf_base d OR ipa_l1_block_offset ipa
      else if d_level d = 2 then s2_leaf_base d OR ipa_l2_block_offset ipa
      else s2_leaf_base d OR ipa_page_offset ipa)"

definition s1_nested :: "Stage1Walker \<Rightarrow> int \<Rightarrow> AccessType \<Rightarrow> Stage2WalkResult" where
  "s1_nested w cur access_type = fst (Stage2Walker_walk (stage2_walker w) cur access_type)"

definition s1_next :: "Stage1Walker \<Rightarrow> int \<Rightarrow> AccessType \<Rightarrow> Stage1Walker" where
  "s1_next w cur access_type =
     w\<lparr>stage2_walker := snd (Stage2Walker_walk (stage2_walker w) cur access_type),
       s1w_event_counter := s1w_event_counter w + 1\<rparr>"

definition s1_desc ::
  "Stage1Walker \<Rightarrow> VirtualAddress \<Rightarrow> int \<Rightarrow> int \<Rightarrow> AccessType \<Rightarrow> Descriptor" where
  "s1_desc w va level cur access_type =
     create_descriptor
       (read_descriptor (s1w_translation_tables w)
          (calculate_descriptor_address (the (s2_output_pa (s1_nested w cur access_type)))
             (va_get_index va level) 8)) level False"

definition s1_event ::
  "Stage1Walker \<Rightarrow> VirtualAddress \<Rightarrow> int \<Rightarrow> int \<Rightarrow> AccessType \<Rightarrow> int \<Rightarrow> Stage1WalkEvent"
  where
  "s1_event w va level cur access_type out =
     \<lparr>s1e_event_id = s1w_event_counter w + 1, s1e_level = level,
      s1e_table_base_ipa = cur,
      s1e_table_base_pa = the (s2_output_pa (s1_nested w cur access_type)),
      s1e_index = va_get_index va level,
      s1e_descriptor_address_pa =
        calculate_descriptor_address (the (s2_output_pa (s1_nested w cur access_type)))
          (va_get_index va level) 8,
      s1e_descriptor_value = d_value (s1_desc w va level cur access_type),
      s1e_descriptor_type = descriptor_type (s1_desc w va level cur access_type),
      s1e_output_address = out,
      s1e_s2_events = s2_events (s1_nested w cur access_type)\<rparr>"

definition s1_s2fault_event ::
  "Stage1Walker \<Rightarrow> VirtualAddress \<Rightarrow> int \<Rightarrow> int \<Rightarrow> AccessType \<Rightarrow> Stage1WalkEvent" where
  "s1_s2fault_event w va level cur access_type =
     \<lparr>s1e_event_id = s1w_event_counter w + 1, s1e_level = level,
      s1e_table_base_ipa = cur, s1e_table_base_pa = 0,
      s1e_index = va_get_index va level, s1e_descriptor_address_pa = 0,
      s1e_descriptor_value = 0, s1e_descriptor_type = INVALID, s1e_output_address = 0,
      s1e_s2_events = s2_events (s1_nested w cur access_type)\<rparr>"

definition s1_leaf_ipa :: "Descriptor \<Rightarrow> VirtualAddress \<Rightarrow> int" where
  "s1_leaf_ipa d va =
     (if d_level d = 1 then s2_leaf_base d OR va_l1_block_offset va
      else if d_level d = 2 then s2_leaf_base d OR va_l2_block_offset va
      else s2_leaf_base d OR va_page_offset va)"

text \<open>The descriptor a stage-1 event records, rebuilt from its value and level.\<close>

definition desc_of :: "Stage1WalkEvent \<Rightarrow> Descriptor" where
  "desc_of e = create_descriptor (s1e_descriptor_value e) (s1e_level e) False"

text \<open>The number of \<open>WalkEvent\<close>s a list of stage-1 events flattens to.\<close>

definition flat_count :: "Stage1WalkEvent list \<Rightarrow> nat" where
  "flat_count es = sum_list (map (\<lambda>e. length (s1e_s2_events e) + 1) es)"

text \<open>Names for the parts of \<open>PageTableWalker.walk\<close>: the stage-1 walker it builds, the
  stage-1 result, the flattened stage-1 trace with its counter, and the result of the
  final stage-2 walk.\<close>

definition pw_s1_walker :: "PageTableWalker \<Rightarrow> VirtualAddress \<Rightarrow> Stage1Walker" where
  "pw_s1_walker self va =
     \<lparr>ttbr_base = get_stage1_table_base (register_state self) (uses_ttbr1 va),
      stage2_walker = s2_reset_event_counter (pw_stage2_walker self),
      s1w_starting_level = TCR_starting_level (tcr_el1 (register_state self)) (uses_ttbr1 va),
      s1w_translation_tables = s1_tables self, s1w_event_counter = 0\<rparr>"

definition pw_s1_result ::
  "PageTableWalker \<Rightarrow> VirtualAddress \<Rightarrow> AccessType \<Rightarrow> bool \<Rightarrow> Stage1WalkResult" where
  "pw_s1_result self va access_type is_el0 =
     fst (Stage1Walker_walk (pw_s1_walker self va) va access_type is_el0)"

definition pw_s1_trace ::
  "PageTableWalker \<Rightarrow> VirtualAddress \<Rightarrow> AccessType \<Rightarrow> bool \<Rightarrow> WalkEvent list \<times> nat" where
  "pw_s1_trace self va access_type is_el0 =
     flatten_s1_events (s1_events (pw_s1_result self va access_type is_el0)) [] 0"

definition pw_s2_final ::
  "PageTableWalker \<Rightarrow> VirtualAddress \<Rightarrow> AccessType \<Rightarrow> bool \<Rightarrow> Stage2WalkResult" where
  "pw_s2_final self va access_type is_el0 =
     fst (Stage2Walker_walk
            (s2_set_event_counter
               (stage2_walker (snd (Stage1Walker_walk (pw_s1_walker self va) va access_type
                  is_el0)))
               (snd (pw_s1_trace self va access_type is_el0)))
            (the (s1_output_ipa (pw_s1_result self va access_type is_el0))) access_type)"

definition pw_final_trace ::
  "PageTableWalker \<Rightarrow> VirtualAddress \<Rightarrow> AccessType \<Rightarrow> bool \<Rightarrow> WalkEvent list \<times> nat" where
  "pw_final_trace self va access_type is_el0 =
     append_s2_events
       (\<lambda>e. Final_S2 (s2e_level e)
          (the (s1_output_ipa (pw_s1_result self va access_type is_el0))))
       (s2_events (pw_s2_final self va access_type is_el0))
       (fst (pw_s1_trace self va access_type is_el0))
       (snd (pw_s1_trace self va access_type is_el0))"

text \<open>A leaf descriptor, and the outcome the stage-1 walker must report for the
  events \<open>new\<close> it appended, given the limits \<open>ul\<close> and \<open>pl\<close> it started with: every event
  but the last records a table descriptor; if the last one records a leaf, the result is
  decided by \<open>check_permission\<close> on the leaf's AP and on UXN and PXN combined with the
  table limits; otherwise the walk failed with a translation fault.\<close>

definition leaf_desc :: "Descriptor \<Rightarrow> bool" where
  "leaf_desc d \<longleftrightarrow> is_page d \<or> is_block d"

definition final_uxn :: "bool \<Rightarrow> Stage1WalkEvent list \<Rightarrow> bool" where
  "final_uxn ul es \<longleftrightarrow>
     uxn (desc_of (last es)) \<or> ul \<or> list_ex (\<lambda>e. uxn_table (desc_of e)) (butlast es)"

definition final_pxn :: "bool \<Rightarrow> Stage1WalkEvent list \<Rightarrow> bool" where
  "final_pxn pl es \<longleftrightarrow>
     pxn (desc_of (last es)) \<or> pl \<or> list_ex (\<lambda>e. pxn_table (desc_of e)) (butlast es)"

definition permission_fault :: "VirtualAddress \<Rightarrow> AccessType \<Rightarrow> int \<Rightarrow> FaultRecord" where
  "permission_fault va access_type level =
     \<lparr>fault_type = PERMISSION_FAULT, f_stage = 1, f_level = level, f_address = va_value va,
      f_access_type = Some access_type, far_el1 = Some (va_value va), far_el2 = None\<rparr>"

definition is_translation_fault :: "FaultRecord option \<Rightarrow> bool" where
  "is_translation_fault fo =
     (case fo of None \<Rightarrow> False | Some f \<Rightarrow> fault_type f = TRANSLATION_FAULT)"

definition s1_outcome ::
  "VirtualAddress \<Rightarrow> AccessType \<Rightarrow> bool \<Rightarrow> bool \<Rightarrow> bool \<Rightarrow> Stage1WalkEvent list
     \<Rightarrow> Stage1WalkResult \<Rightarrow> bool" where
  "s1_outcome va access_type is_el0 ul pl new r \<longleftrightarrow>
     list_all (\<lambda>e. is_table (desc_of e)) (butlast new) \<and>
     (if new \<noteq> [] \<and> leaf_desc (desc_of (last new)) then
        (if check_permission access_type (ap (desc_of (last new))) (final_uxn ul new)
              (final_pxn pl new) is_el0
         then s1_success r \<and>
              s1_output_ipa r = Some (s1_leaf_ipa (desc_of (last new)) va) \<and>
              s1_final_permissions r =
                Some (from_ap_bits (ap (desc_of (last new))) (final_uxn ul new)
                  (final_pxn pl new)) \<and>
              s1_fault r = None
         else \<not> s1_success r \<and> s1_output_ipa r = None \<and> s1_final_permissions r = None \<and>
              s1_fault r = Some (permission_fault va access_type (s1e_level (last new))))
      else \<not> s1_success r \<and> s1_output_ipa r = None \<and> s1_final_permissions r = None \<and>
           is_translation_fault (s1_fault r))"

section \<open>Descriptor classification\<close>

lemma and_3_eq_mod: "(v::int) AND 3 = v mod 4"
  using take_bit_eq_mask[of 2 v] by (simp add: take_bit_eq_mod mask_numeral)

lemma and_1_eq_mod: "(v::int) AND 1 = v mod 2"
  by (simp add: and_one_eq)

lemma low_bits_cases:
  "((v::int) AND 3 = 0 \<and> v AND 1 = 0) \<or> (v AND 3 = 1 \<and> v AND 1 = 1) \<or>
   (v AND 3 = 2 \<and> v AND 1 = 0) \<or> (v AND 3 = 3 \<and> v AND 1 = 1)"
  unfolding and_3_eq_mod and_1_eq_mod by presburger

text \<open>
  C8. For every descriptor word \<open>v\<close> (in particular every 64-bit one) and every level,
  \<open>descriptor_type\<close> yields exactly one kind: INVALID when bit 0 is clear; BLOCK exactly
  for bits \<open>01\<close> at level 1 or 2; TABLE exactly for bits \<open>11\<close> below level 3; PAGE exactly
  for bits \<open>11\<close> at level 3; INVALID for every other combination.
\<close>

theorem descriptor_classification:
  "descriptor_type \<lparr>d_value = v, d_level = l, d_is_stage2 = s\<rparr> =
     (if v AND 1 = 0 then INVALID
      else if v AND 3 = 1 \<and> (l = 1 \<or> l = 2) then BLOCK
      else if v AND 3 = 3 \<and> l < 3 then TABLE
      else if v AND 3 = 3 \<and> l = 3 then PAGE
      else INVALID)"
  using low_bits_cases[of v]
  by (elim disjE conjE)
     (simp_all add: descriptor_type_def is_valid_def is_table_def is_block_def is_page_def)

theorem descriptor_classification_witness:
  "descriptor_type \<lparr>d_value = 0x50000443, d_level = 3, d_is_stage2 = False\<rparr> = PAGE \<and>
   descriptor_type \<lparr>d_value = 0x80000441, d_level = 2, d_is_stage2 = False\<rparr> = BLOCK \<and>
   descriptor_type \<lparr>d_value = 0x80000441, d_level = 3, d_is_stage2 = False\<rparr> = INVALID \<and>
   descriptor_type \<lparr>d_value = 0x4001003, d_level = 0, d_is_stage2 = True\<rparr> = TABLE"
  using descriptor_classification[of "0x50000443" 3 False]
    descriptor_classification[of "0x80000441" 2 False]
    descriptor_classification[of "0x80000441" 3 False]
    descriptor_classification[of "0x4001003" 0 True]
  by simp

section \<open>One iteration of each walker\<close>

lemma s2_step:
  "s2_walk_levels w ipa (level # rest) cur evs =
     (let d = s2_desc w ipa level cur in
      if \<not> is_valid d then
        (\<lparr>s2_success = False, s2_input_ipa = ipa, s2_output_pa = None,
          s2_events = evs @ [s2_event w ipa level cur 0],
          s2_fault = Some \<lparr>fault_type = TRANSLATION_FAULT, f_stage = 2, f_level = level,
            f_address = ipa, f_access_type = None, far_el1 = None, far_el2 = Some ipa\<rparr>\<rparr>,
         s2_bump w)
      else if is_table d then
        s2_walk_levels (s2_bump w) ipa rest (next_table_address d)
          (evs @ [s2_event w ipa level cur (next_table_address d)])
      else if is_page d \<or> is_block d then
        (\<lparr>s2_success = True, s2_input_ipa = ipa, s2_output_pa = Some (s2_leaf_pa d ipa),
          s2_events = evs @ [s2_event w ipa level cur (s2_leaf_base d)],
          s2_fault = None\<rparr>, s2_bump w)
      else s2_walk_levels (s2_bump w) ipa rest cur evs)"
  by (simp add: Let_def s2_bump_def s2_desc_def s2_event_def s2_leaf_pa_def s2_leaf_base_def
      create_descriptor_def)

lemma s1_step:
  "s1_walk_levels w va access_type is_el0 (level # rest) cur ul pl al evs =
     (let r2 = s1_nested w cur access_type;
          w1 = s1_next w cur access_type;
          d = s1_desc w va level cur access_type in
      if \<not> s2_success r2 then
        (\<lparr>s1_success = False, s1_input_va = va, s1_output_ipa = None,
          s1_events = evs @ [s1_s2fault_event w va level cur access_type],
          s1_fault = s2_fault r2, s1_final_permissions = None\<rparr>, w1)
      else if \<not> is_valid d then
        (\<lparr>s1_success = False, s1_input_va = va, s1_output_ipa = None,
          s1_events = evs @ [s1_event w va level cur access_type 0],
          s1_fault = Some \<lparr>fault_type = TRANSLATION_FAULT, f_stage = 1, f_level = level,
            f_address = va_value va, f_access_type = None,
            far_el1 = Some (va_value va), far_el2 = None\<rparr>,
          s1_final_permissions = None\<rparr>, w1)
      else if is_table d then
        s1_walk_levels w1 va access_type is_el0 rest (next_table_address d)
          (uxn_table d \<or> ul) (pxn_table d \<or> pl)
          (if ap_table d \<noteq> 0 then max al (ap_table d) else al)
          (evs @ [s1_event w va level cur access_type (next_table_address d)])
      else if is_page d \<or> is_block d then
        (if \<not> check_permission access_type (ap d) (uxn d \<or> ul) (pxn d \<or> pl) is_el0 then
           (\<lparr>s1_success = False, s1_input_va = va, s1_output_ipa = None,
             s1_events = evs @ [s1_event w va level cur access_type 0],
             s1_fault = Some \<lparr>fault_type = PERMISSION_FAULT, f_stage = 1, f_level = level,
               f_address = va_value va, f_access_type = Some access_type,
               far_el1 = Some (va_value va), far_el2 = None\<rparr>,
             s1_final_permissions = None\<rparr>, w1)
         else
           (\<lparr>s1_success = True, s1_input_va = va, s1_output_ipa = Some (s1_leaf_ipa d va),
             s1_events = evs @ [s1_event w va level cur access_type (s2_leaf_base d)],
             s1_fault = None,
             s1_final_permissions =
               Some (from_ap_bits (ap d) (uxn d \<or> ul) (pxn d \<or> pl))\<rparr>, w1))
      else s1_walk_levels w1 va access_type is_el0 rest cur ul pl al evs)"
  by (simp add: Let_def s1_nested_def s1_next_def s1_desc_def s1_event_def
      s1_s2fault_event_def s1_leaf_ipa_def s2_leaf_base_def create_descriptor_def
      case_prod_beta)

declare s2_walk_levels.simps(2) [simp del]
declare s1_walk_levels.simps(2) [simp del]

lemma walk_result:
  "fst (PageTableWalker_walk self va access_type is_el0) =
     (let s1r = pw_s1_result self va access_type is_el0;
          t1 = pw_s1_trace self va access_type is_el0;
          s2r = pw_s2_final self va access_type is_el0;
          t2 = pw_final_trace self va access_type is_el0 in
      if \<not> s1_success s1r then
        \<lparr>wr_status = S1_FAULT, wr_input_va = va, wr_output_pa = None, wr_ipa = None,
         wr_events = fst t1, wr_s1_result = Some s1r, wr_s2_final_result = None,
         wr_total_memory_accesses = snd t1, wr_fault = s1_fault s1r,
         wr_final_permissions = None\<rparr>
      else if \<not> s2_success s2r then
        \<lparr>wr_status = S2_FINAL_FAULT, wr_input_va = va, wr_output_pa = None,
         wr_ipa = s1_output_ipa s1r, wr_events = fst t2, wr_s1_result = Some s1r,
         wr_s2_final_result = Some s2r, wr_total_memory_accesses = snd t2,
         wr_fault = s2_fault s2r, wr_final_permissions = s1_final_permissions s1r\<rparr>
      else
        \<lparr>wr_status = SUCCESS, wr_input_va = va, wr_output_pa = s2_output_pa s2r,
         wr_ipa = s1_output_ipa s1r, wr_events = fst t2, wr_s1_result = Some s1r,
         wr_s2_final_result = Some s2r, wr_total_memory_accesses = snd t2,
         wr_fault = None, wr_final_permissions = s1_final_permissions s1r\<rparr>)"
  by (simp add: PageTableWalker_walk_def Let_def case_prod_beta pw_s1_result_def
      pw_s1_trace_def pw_s2_final_def pw_final_trace_def pw_s1_walker_def
      s1_reset_event_counter_def)

section \<open>Stage 2 walker: invariants of the loop\<close>

lemma s2_walk_levels_length:
  "length (s2_events (fst (s2_walk_levels w ipa ls cur evs))) \<le> length evs + length ls"
proof (induction ls arbitrary: w cur evs)
  case Nil
  show ?case by simp
next
  case (Cons l ls)
  have a: "length (s2_events (fst (s2_walk_levels (s2_bump w) ipa ls c (evs @ [e]))))
        \<le> Suc (length evs + length ls)" for c e
    using Cons.IH[of "s2_bump w" c "evs @ [e]"] by simp
  have b: "length (s2_events (fst (s2_walk_levels (s2_bump w) ipa ls cur evs)))
        \<le> Suc (length evs + length ls)"
    using Cons.IH[of "s2_bump w" cur evs] by simp
  show ?case using a b by (simp add: s2_step Let_def)
qed

lemma s2_walk_levels_fault:
  "s2_fault (fst (s2_walk_levels w ipa ls cur evs)) = Some f \<Longrightarrow>
     fault_type f = TRANSLATION_FAULT \<and> f_stage f = 2 \<and> f_address f = ipa"
proof (induction ls arbitrary: w cur evs)
  case Nil
  then show ?case by auto
next
  case (Cons l ls)
  then show ?case by (simp add: s2_step Let_def split: if_splits) auto
qed

lemma s2_walk_levels_success:
  "s2_success (fst (s2_walk_levels w ipa ls cur evs)) \<longleftrightarrow>
     s2_fault (fst (s2_walk_levels w ipa ls cur evs)) = None"
  by (induction ls arbitrary: w cur evs) (simp_all add: s2_step Let_def)

lemma s2_walk_levels_output:
  "s2_success (fst (s2_walk_levels w ipa ls cur evs)) \<longleftrightarrow>
     s2_output_pa (fst (s2_walk_levels w ipa ls cur evs)) \<noteq> None"
  by (induction ls arbitrary: w cur evs) (simp_all add: s2_step Let_def)

lemma s2_walk_levels_walker:
  "vttbr_base (snd (s2_walk_levels w ipa ls cur evs)) = vttbr_base w \<and>
   s2w_starting_level (snd (s2_walk_levels w ipa ls cur evs)) = s2w_starting_level w \<and>
   s2w_translation_tables (snd (s2_walk_levels w ipa ls cur evs)) = s2w_translation_tables w"
  by (induction ls arbitrary: w cur evs) (simp_all add: s2_step Let_def s2_bump_def)

lemma length_levels: "0 \<le> l \<Longrightarrow> length [l..3] \<le> 4"
  by simp

lemma Stage2Walker_walk_length:
  "0 \<le> s2w_starting_level w \<Longrightarrow>
     length (s2_events (fst (Stage2Walker_walk w ipa access_type))) \<le> 4"
  using s2_walk_levels_length[of w ipa "[s2w_starting_level w..3]" "vttbr_base w" "[]"]
  by (simp add: Stage2Walker_walk_def)

lemma Stage2Walker_walk_fault:
  "s2_fault (fst (Stage2Walker_walk w ipa access_type)) = Some f \<Longrightarrow>
     fault_type f = TRANSLATION_FAULT \<and> f_stage f = 2 \<and> f_address f = ipa"
  unfolding Stage2Walker_walk_def by (rule s2_walk_levels_fault)

lemma Stage2Walker_walk_success:
  "s2_success (fst (Stage2Walker_walk w ipa access_type)) \<longleftrightarrow>
     s2_fault (fst (Stage2Walker_walk w ipa access_type)) = None"
  unfolding Stage2Walker_walk_def by (rule s2_walk_levels_success)

lemma Stage2Walker_walk_output:
  "s2_success (fst (Stage2Walker_walk w ipa access_type)) \<longleftrightarrow>
     s2_output_pa (fst (Stage2Walker_walk w ipa access_type)) \<noteq> None"
  unfolding Stage2Walker_walk_def by (rule s2_walk_levels_output)

lemma Stage2Walker_walk_walker:
  "s2w_starting_level (snd (Stage2Walker_walk w ipa access_type)) = s2w_starting_level w"
  unfolding Stage2Walker_walk_def by (simp add: s2_walk_levels_walker)

section \<open>Stage 1 walker: the event bound\<close>

lemma flat_count_Nil [simp]: "flat_count [] = 0"
  by (simp add: flat_count_def)

lemma flat_count_snoc [simp]:
  "flat_count (es @ [e]) = flat_count es + length (s1e_s2_events e) + 1"
  by (simp add: flat_count_def)

lemma s1_next_start [simp]:
  "s2w_starting_level (stage2_walker (s1_next w cur access_type)) =
     s2w_starting_level (stage2_walker w)"
  by (simp add: s1_next_def Stage2Walker_walk_walker)

lemma s1_event_s2_events [simp]:
  "s1e_s2_events (s1_event w va level cur access_type out) =
     s2_events (s1_nested w cur access_type)"
  "s1e_s2_events (s1_s2fault_event w va level cur access_type) =
     s2_events (s1_nested w cur access_type)"
  by (simp_all add: s1_event_def s1_s2fault_event_def)

lemma s1_nested_length:
  "0 \<le> s2w_starting_level (stage2_walker w) \<Longrightarrow>
     length (s2_events (s1_nested w cur access_type)) \<le> 4"
  unfolding s1_nested_def by (rule Stage2Walker_walk_length)

lemma s1_walk_levels_count:
  "0 \<le> s2w_starting_level (stage2_walker w) \<Longrightarrow>
   flat_count (s1_events (fst (s1_walk_levels w va access_type is_el0 ls cur ul pl al evs)))
     \<le> flat_count evs + 5 * length ls"
proof (induction ls arbitrary: w cur ul pl al evs)
  case Nil
  show ?case by simp
next
  case (Cons l ls)
  let ?w1 = "s1_next w cur access_type"
  have n: "length (s2_events (s1_nested w cur access_type)) \<le> 4"
    using Cons.prems by (rule s1_nested_length)
  have s: "0 \<le> s2w_starting_level (stage2_walker ?w1)"
    using Cons.prems by simp
  have a: "flat_count (s1_events (fst (s1_walk_levels ?w1 va access_type is_el0 ls c u p a
              (evs @ [s1_event w va l cur access_type out]))))
        \<le> flat_count evs + (5 + 5 * length ls)" for c u p a out
    using Cons.IH[OF s, of c u p a "evs @ [s1_event w va l cur access_type out]"] n by simp
  have b: "flat_count (s1_events (fst (s1_walk_levels ?w1 va access_type is_el0 ls cur ul pl al
              evs))) \<le> flat_count evs + (5 + 5 * length ls)"
    using Cons.IH[OF s, of cur ul pl al evs] by simp
  show ?case using a b n by (simp add: s1_step Let_def)
qed

section \<open>Flattening: counters and event identifiers\<close>

lemma flat_count_Cons [simp]:
  "flat_count (e # es) = length (s1e_s2_events e) + 1 + flat_count es"
  by (simp add: flat_count_def)

lemma upt_head: "[Suc c..<Suc (Suc (c + n))] = Suc c # [Suc (Suc c)..<Suc (Suc (c + n))]"
  by (rule upt_conv_Cons) simp

lemma upt_split:
  "[Suc c..<Suc (c + (n + 1 + m))] =
     [Suc c..<Suc (c + n)] @ Suc (c + n) # [Suc (Suc (c + n))..<Suc (Suc (c + n) + m)]"
proof -
  have "[Suc c..<Suc (c + n) + Suc m] = [Suc c..<Suc (c + n)] @ [Suc (c + n)..<Suc (c + n) + Suc m]"
    by (rule upt_add_eq_append) simp
  moreover have "[Suc (c + n)..<Suc (c + n) + Suc m] =
      Suc (c + n) # [Suc (Suc (c + n))..<Suc (c + n) + Suc m]"
    by (rule upt_conv_Cons) simp
  moreover have "Suc (c + n) + Suc m = Suc (c + (n + 1 + m))" by simp
  moreover have "Suc (c + n) + Suc m = Suc (Suc (c + n) + m)" by simp
  ultimately show ?thesis by metis
qed

lemma append_s2_events_ids:
  "snd (append_s2_events p es evs c) = c + length es \<and>
   map we_event_id (fst (append_s2_events p es evs c)) =
     map we_event_id evs @ [Suc c..<Suc (c + length es)]"
proof (induction es arbitrary: evs c)
  case Nil
  show ?case by simp
next
  case (Cons e es)
  show ?case using Cons.IH upt_head[of c "length es"] by (simp add: Let_def)
qed

lemma flatten_s1_events_ids:
  "snd (flatten_s1_events es evs c) = c + flat_count es \<and>
   map we_event_id (fst (flatten_s1_events es evs c)) =
     map we_event_id evs @ [Suc c..<Suc (c + flat_count es)]"
proof (induction es arbitrary: evs c)
  case Nil
  show ?case by simp
next
  case (Cons e es)
  show ?case
    using Cons.IH
      append_s2_events_ids[of "\<lambda>_. S2_for_S1_table (s1e_level e) (s1e_table_base_ipa e)"
        "s1e_s2_events e" evs c]
      upt_split[of c "length (s1e_s2_events e)" "flat_count es"]
    by (simp add: Let_def case_prod_beta)
qed

section \<open>The orchestrator's trace\<close>

lemma s1_walk_levels_walker:
  "s2w_starting_level (stage2_walker (snd (s1_walk_levels w va access_type is_el0 ls cur ul pl
      al evs))) = s2w_starting_level (stage2_walker w)"
proof (induction ls arbitrary: w cur ul pl al evs)
  case Nil
  show ?case by simp
next
  case (Cons l ls)
  show ?case by (simp add: s1_step Let_def Cons.IH)
qed

lemma TCR_starting_level_range:
  "0 \<le> TCR_starting_level r b \<and> TCR_starting_level r b \<le> 2"
  by (simp add: TCR_starting_level_def Let_def)

lemma pw_s1_result_count:
  assumes "0 \<le> s2w_starting_level (pw_stage2_walker self)"
  shows "flat_count (s1_events (pw_s1_result self va access_type is_el0)) \<le> 20"
proof -
  let ?w = "pw_s1_walker self va"
  have s: "0 \<le> s2w_starting_level (stage2_walker ?w)"
    using assms by (simp add: pw_s1_walker_def s2_reset_event_counter_def)
  have l: "length [s1w_starting_level ?w..3] \<le> 4"
  proof -
    have "0 \<le> TCR_starting_level (tcr_el1 (register_state self)) (uses_ttbr1 va)"
      using TCR_starting_level_range by blast
    then show ?thesis by (simp add: pw_s1_walker_def)
  qed
  have "flat_count (s1_events (pw_s1_result self va access_type is_el0))
          \<le> flat_count [] + 5 * length [s1w_starting_level ?w..3]"
    unfolding pw_s1_result_def Stage1Walker_walk_def by (rule s1_walk_levels_count[OF s])
  then show ?thesis using l by simp
qed

lemma pw_s2_final_length:
  assumes "0 \<le> s2w_starting_level (pw_stage2_walker self)"
  shows "length (s2_events (pw_s2_final self va access_type is_el0)) \<le> 4"
proof -
  have "s2w_starting_level
          (stage2_walker (snd (Stage1Walker_walk (pw_s1_walker self va) va access_type is_el0)))
        = s2w_starting_level (pw_stage2_walker self)"
    by (simp add: Stage1Walker_walk_def s1_walk_levels_walker pw_s1_walker_def
        s2_reset_event_counter_def)
  then show ?thesis
    unfolding pw_s2_final_def using assms
    by (intro Stage2Walker_walk_length) (simp add: s2_set_event_counter_def)
qed

lemma pw_s1_trace_ids:
  "snd (pw_s1_trace self va access_type is_el0) =
     flat_count (s1_events (pw_s1_result self va access_type is_el0)) \<and>
   map we_event_id (fst (pw_s1_trace self va access_type is_el0)) =
     [1..<Suc (snd (pw_s1_trace self va access_type is_el0))]"
  using flatten_s1_events_ids[of "s1_events (pw_s1_result self va access_type is_el0)" "[]" 0]
  by (simp add: pw_s1_trace_def del: upt_Suc)

lemma pw_final_trace_ids:
  "snd (pw_final_trace self va access_type is_el0) =
     snd (pw_s1_trace self va access_type is_el0) +
       length (s2_events (pw_s2_final self va access_type is_el0)) \<and>
   map we_event_id (fst (pw_final_trace self va access_type is_el0)) =
     [1..<Suc (snd (pw_final_trace self va access_type is_el0))]"
proof -
  let ?c = "snd (pw_s1_trace self va access_type is_el0)"
  let ?n = "length (s2_events (pw_s2_final self va access_type is_el0))"
  have "[1..<Suc ?c + ?n] = [1..<Suc ?c] @ [Suc ?c..<Suc ?c + ?n]"
    by (rule upt_add_eq_append) simp
  then show ?thesis
    using append_s2_events_ids[of _ "s2_events (pw_s2_final self va access_type is_el0)"
        "fst (pw_s1_trace self va access_type is_el0)" ?c]
      pw_s1_trace_ids[of self va access_type is_el0]
    by (simp add: pw_final_trace_def del: upt_Suc)
qed

text \<open>
  C7. Within one walk the event identifiers of the flattened trace are exactly
  \<open>1, 2, \<dots>, N\<close> in list order, \<open>N\<close> being the reported \<open>total_memory_accesses\<close>; so they
  are strictly increasing, without gaps or repeats, and the trace has \<open>N\<close> events.
\<close>

theorem event_ids_contiguous:
  "map we_event_id (wr_events (fst (PageTableWalker_walk self va access_type is_el0))) =
     [1..<Suc (wr_total_memory_accesses (fst (PageTableWalker_walk self va access_type is_el0)))]
   \<and> sorted_wrt (<)
       (map we_event_id (wr_events (fst (PageTableWalker_walk self va access_type is_el0))))
   \<and> length (wr_events (fst (PageTableWalker_walk self va access_type is_el0))) =
       wr_total_memory_accesses (fst (PageTableWalker_walk self va access_type is_el0))"
proof -
  let ?r = "fst (PageTableWalker_walk self va access_type is_el0)"
  have ids: "map we_event_id (wr_events ?r) = [1..<Suc (wr_total_memory_accesses ?r)]"
    using pw_s1_trace_ids[of self va access_type is_el0]
      pw_final_trace_ids[of self va access_type is_el0]
    by (simp add: walk_result Let_def del: upt_Suc)
  have srt: "sorted_wrt (<) (map we_event_id (wr_events ?r))"
    unfolding ids by (rule sorted_wrt_upt)
  have "length (map we_event_id (wr_events ?r)) =
      length [1..<Suc (wr_total_memory_accesses ?r)]"
    by (simp only: ids)
  then have len: "length (wr_events ?r) = wr_total_memory_accesses ?r"
    by simp
  show ?thesis using ids srt len by blast
qed

text \<open>
  C1, as amended. When the stage-2 walks start at a level \<open>\<ge> 0\<close> (level 0 for the 4 KB
  granule with 48-bit IPA), a walk reports at most \<open>4 \<sdot> (4 + 1) + 4 = 24\<close> memory
  accesses, whatever its status, and at most 20 when the stage-1 walk fails; the
  happy-path scenario reports exactly 24.
\<close>

theorem event_count_bound:
  assumes "0 \<le> s2w_starting_level (pw_stage2_walker self)"
  shows "wr_total_memory_accesses (fst (PageTableWalker_walk self va access_type is_el0)) \<le> 24
    \<and> (wr_status (fst (PageTableWalker_walk self va access_type is_el0)) = S1_FAULT \<longrightarrow>
        wr_total_memory_accesses (fst (PageTableWalker_walk self va access_type is_el0)) \<le> 20)"
  using pw_s1_result_count[OF assms, of va access_type is_el0]
    pw_s2_final_length[OF assms, of va access_type is_el0]
    conjunct1[OF pw_s1_trace_ids[of self va access_type is_el0]]
    conjunct1[OF pw_final_trace_ids[of self va access_type is_el0]]
  by (simp add: walk_result Let_def)

theorem event_count_bound_witness:
  "0 \<le> s2w_starting_level (pw_stage2_walker happy_walker) \<and>
   wr_total_memory_accesses (fst (PageTableWalker_walk happy_walker scenario_va READ True)) = 24 \<and>
   0 \<le> s2w_starting_level (pw_stage2_walker perm_walker) \<and>
   wr_status (fst (PageTableWalker_walk perm_walker scenario_va WRITE True)) = S1_FAULT \<and>
   wr_total_memory_accesses (fst (PageTableWalker_walk perm_walker scenario_va WRITE True)) \<le> 20"
proof -
  have h: "0 \<le> s2w_starting_level (pw_stage2_walker happy_walker)"
    by code_simp
  have p: "0 \<le> s2w_starting_level (pw_stage2_walker perm_walker)"
    by code_simp
  have t: "wr_total_memory_accesses
      (fst (PageTableWalker_walk happy_walker scenario_va READ True)) = 24"
    by code_simp
  have s: "wr_status (fst (PageTableWalker_walk perm_walker scenario_va WRITE True)) = S1_FAULT"
    by code_simp
  show ?thesis
    using h p t s event_count_bound[OF h, of scenario_va READ True]
      event_count_bound[OF p, of scenario_va WRITE True]
    by simp
qed

theorem happy_path_24_counterexample:
  "wr_status (fst (PageTableWalker_walk happy_walker scenario_va READ True)) = SUCCESS \<and>
   wr_total_memory_accesses (fst (PageTableWalker_walk happy_walker scenario_va READ True)) = 24 \<and>
   \<not> wr_total_memory_accesses (fst (PageTableWalker_walk happy_walker scenario_va READ True))
       \<le> 20"
  by code_simp

section \<open>Stage 1 walker: what the result says about the events\<close>

lemma is_table_valid: "is_table d \<Longrightarrow> is_valid d"
  using low_bits_cases[of "d_value d"] by (auto simp: is_table_def is_valid_def)

lemma leaf_desc_valid: "leaf_desc d \<Longrightarrow> is_valid d"
  using low_bits_cases[of "d_value d"]
  by (auto simp: leaf_desc_def is_page_def is_block_def is_valid_def)

lemma is_table_not_leaf: "is_table d \<Longrightarrow> \<not> leaf_desc d"
  by (auto simp: leaf_desc_def is_page_def is_block_def is_table_def)

lemma desc_of_s1_event [simp]:
  "desc_of (s1_event w va level cur access_type out) = s1_desc w va level cur access_type"
  by (simp add: desc_of_def s1_event_def s1_desc_def create_descriptor_def)

lemma s1e_level_s1_event [simp]:
  "s1e_level (s1_event w va level cur access_type out) = level"
  by (simp add: s1_event_def)

lemma d_level_s1_desc [simp]: "d_level (s1_desc w va level cur access_type) = level"
  by (simp add: s1_desc_def create_descriptor_def)

lemma desc_of_s2fault_event_not_leaf:
  "\<not> leaf_desc (desc_of (s1_s2fault_event w va level cur access_type))"
  by (simp add: desc_of_def s1_s2fault_event_def create_descriptor_def leaf_desc_def
      is_page_def is_block_def)

lemma s1_nested_failed:
  "\<not> s2_success (s1_nested w cur access_type) \<Longrightarrow>
     is_translation_fault (s2_fault (s1_nested w cur access_type))"
  using Stage2Walker_walk_success[of "stage2_walker w" cur access_type]
    Stage2Walker_walk_fault[of "stage2_walker w" cur access_type]
  by (auto simp: s1_nested_def is_translation_fault_def split: option.splits)

lemma s1_outcome_table_Cons:
  assumes t: "is_table (desc_of t)"
    and o: "s1_outcome va access_type is_el0 (uxn_table (desc_of t) \<or> ul)
              (pxn_table (desc_of t) \<or> pl) new r"
  shows "s1_outcome va access_type is_el0 ul pl (t # new) r"
proof (cases "new = []")
  case True
  then show ?thesis
    using o t is_table_not_leaf[OF t] by (simp add: s1_outcome_def)
next
  case False
  have u: "final_uxn ul (t # new) = final_uxn (uxn_table (desc_of t) \<or> ul) new"
    using False by (auto simp: final_uxn_def)
  have p: "final_pxn pl (t # new) = final_pxn (pxn_table (desc_of t) \<or> pl) new"
    using False by (auto simp: final_pxn_def)
  show ?thesis
    using o t False unfolding s1_outcome_def u p by simp
qed

lemma s1_walk_levels_outcome:
  "\<exists>new. s1_events (fst (s1_walk_levels w va access_type is_el0 ls cur ul pl al evs)) =
            evs @ new \<and>
         s1_outcome va access_type is_el0 ul pl new
           (fst (s1_walk_levels w va access_type is_el0 ls cur ul pl al evs))"
proof (induction ls arbitrary: w cur ul pl al evs)
  case Nil
  show ?case
    by (simp add: s1_outcome_def is_translation_fault_def)
next
  case (Cons l ls)
  let ?r = "fst (s1_walk_levels w va access_type is_el0 (l # ls) cur ul pl al evs)"
  let ?d = "s1_desc w va l cur access_type"
  let ?w1 = "s1_next w cur access_type"
  consider (s2f) "\<not> s2_success (s1_nested w cur access_type)"
    | (inv) "s2_success (s1_nested w cur access_type)" "\<not> is_valid ?d"
    | (tab) "s2_success (s1_nested w cur access_type)" "is_valid ?d" "is_table ?d"
    | (leaf) "s2_success (s1_nested w cur access_type)" "is_valid ?d" "\<not> is_table ?d"
        "leaf_desc ?d"
    | (skip) "s2_success (s1_nested w cur access_type)" "is_valid ?d" "\<not> is_table ?d"
        "\<not> leaf_desc ?d"
    by blast
  then show ?case
  proof cases
    case s2f
    have "s1_events ?r = evs @ [s1_s2fault_event w va l cur access_type]"
      using s2f by (simp add: s1_step Let_def)
    moreover have "s1_outcome va access_type is_el0 ul pl
        [s1_s2fault_event w va l cur access_type] ?r"
      using s2f s1_nested_failed[OF s2f] desc_of_s2fault_event_not_leaf[of w va l cur access_type]
      by (simp add: s1_step Let_def s1_outcome_def)
    ultimately show ?thesis by blast
  next
    case inv
    have nl: "\<not> leaf_desc ?d" using inv(2) leaf_desc_valid by blast
    have "s1_events ?r = evs @ [s1_event w va l cur access_type 0]"
      using inv by (simp add: s1_step Let_def)
    moreover have "s1_outcome va access_type is_el0 ul pl [s1_event w va l cur access_type 0] ?r"
      using inv nl by (simp add: s1_step Let_def s1_outcome_def is_translation_fault_def)
    ultimately show ?thesis by blast
  next
    case tab
    let ?t = "s1_event w va l cur access_type (next_table_address ?d)"
    let ?al = "if ap_table ?d \<noteq> 0 then max al (ap_table ?d) else al"
    have eq: "?r = fst (s1_walk_levels ?w1 va access_type is_el0 ls (next_table_address ?d)
        (uxn_table ?d \<or> ul) (pxn_table ?d \<or> pl) ?al (evs @ [?t]))"
      using tab by (simp add: s1_step Let_def)
    obtain new where n: "s1_events ?r = (evs @ [?t]) @ new"
      and o: "s1_outcome va access_type is_el0 (uxn_table ?d \<or> ul) (pxn_table ?d \<or> pl) new ?r"
      using Cons.IH[of ?w1 "next_table_address ?d" "uxn_table ?d \<or> ul" "pxn_table ?d \<or> pl" ?al
          "evs @ [?t]"]
      unfolding eq by blast
    have "s1_outcome va access_type is_el0 ul pl (?t # new) ?r"
      by (rule s1_outcome_table_Cons) (use tab o in simp_all)
    then show ?thesis using n by auto
  next
    case leaf
    have pb: "is_page ?d \<or> is_block ?d" using leaf(4) by (simp add: leaf_desc_def)
    show ?thesis
    proof (cases "check_permission access_type (ap ?d) (uxn ?d \<or> ul) (pxn ?d \<or> pl) is_el0")
      case True
      let ?e = "s1_event w va l cur access_type (s2_leaf_base ?d)"
      have "s1_events ?r = evs @ [?e]"
        using leaf pb True by (simp add: s1_step Let_def)
      moreover have "s1_outcome va access_type is_el0 ul pl [?e] ?r"
        using leaf pb True
        by (simp add: s1_step Let_def s1_outcome_def final_uxn_def final_pxn_def)
      ultimately show ?thesis by blast
    next
      case False
      let ?e = "s1_event w va l cur access_type 0"
      have "s1_events ?r = evs @ [?e]"
        using leaf pb False by (simp add: s1_step Let_def)
      moreover have "s1_outcome va access_type is_el0 ul pl [?e] ?r"
        using leaf pb False
        by (simp add: s1_step Let_def s1_outcome_def final_uxn_def final_pxn_def
            permission_fault_def)
      ultimately show ?thesis by blast
    qed
  next
    case skip
    have pb: "\<not> (is_page ?d \<or> is_block ?d)" using skip(4) by (simp add: leaf_desc_def)
    have eq: "?r = fst (s1_walk_levels ?w1 va access_type is_el0 ls cur ul pl al evs)"
      using skip pb by (simp add: s1_step Let_def)
    show ?thesis unfolding eq by (rule Cons.IH)
  qed
qed

lemma Stage1Walker_walk_outcome:
  "s1_outcome va access_type is_el0 False False
     (s1_events (fst (Stage1Walker_walk w va access_type is_el0)))
     (fst (Stage1Walker_walk w va access_type is_el0))"
  using s1_walk_levels_outcome[of w va access_type is_el0 "[s1w_starting_level w..3]"
      "ttbr_base w" False False 0 "[]"]
  by (auto simp: Stage1Walker_walk_def)

lemma s1_walk_levels_types:
  "list_all (\<lambda>e. s1e_descriptor_type e = descriptor_type (desc_of e)) evs \<Longrightarrow>
   list_all (\<lambda>e. s1e_descriptor_type e = descriptor_type (desc_of e))
     (s1_events (fst (s1_walk_levels w va access_type is_el0 ls cur ul pl al evs)))"
proof (induction ls arbitrary: w cur ul pl al evs)
  case Nil
  then show ?case by simp
next
  case (Cons l ls)
  have e: "s1e_descriptor_type (s1_event w va l cur access_type out) =
      descriptor_type (desc_of (s1_event w va l cur access_type out))" for out
    unfolding desc_of_s1_event by (simp add: s1_event_def)
  have f: "s1e_descriptor_type (s1_s2fault_event w va l cur access_type) =
      descriptor_type (desc_of (s1_s2fault_event w va l cur access_type))"
    by (simp add: s1_s2fault_event_def desc_of_def create_descriptor_def descriptor_type_def
        is_valid_def)
  have a: "list_all (\<lambda>e. s1e_descriptor_type e = descriptor_type (desc_of e))
      (s1_events (fst (s1_walk_levels (s1_next w cur access_type) va access_type is_el0 ls c u p a
         (evs @ [s1_event w va l cur access_type out]))))" for c u p a out
    by (rule Cons.IH) (use Cons.prems e in simp)
  have b: "list_all (\<lambda>e. s1e_descriptor_type e = descriptor_type (desc_of e))
      (s1_events (fst (s1_walk_levels (s1_next w cur access_type) va access_type is_el0 ls cur ul
         pl al evs)))"
    by (rule Cons.IH) (rule Cons.prems)
  show ?case using a b e f Cons.prems by (simp add: s1_step Let_def)
qed

lemma s1_walk_levels_ap_limit:
  "s1_walk_levels w va access_type is_el0 ls cur ul pl al evs =
   s1_walk_levels w va access_type is_el0 ls cur ul pl al' evs"
proof (induction ls arbitrary: w cur ul pl al al' evs)
  case Nil
  show ?case by simp
next
  case (Cons l ls)
  let ?d = "s1_desc w va l cur access_type"
  have a: "s1_walk_levels (s1_next w cur access_type) va access_type is_el0 ls c u p
        (if ap_table ?d \<noteq> 0 then max al (ap_table ?d) else al) es =
      s1_walk_levels (s1_next w cur access_type) va access_type is_el0 ls c u p
        (if ap_table ?d \<noteq> 0 then max al' (ap_table ?d) else al') es" for c u p es
    by (rule Cons.IH)
  have b: "s1_walk_levels (s1_next w cur access_type) va access_type is_el0 ls cur ul pl al evs =
      s1_walk_levels (s1_next w cur access_type) va access_type is_el0 ls cur ul pl al' evs"
    by (rule Cons.IH)
  show ?case
    unfolding s1_step Let_def a b ..
qed

section \<open>Claims about the stage-1 leaf\<close>

lemma block_offset_4KB:
  "va_granule va = GRANULE_4KB_CONFIG \<Longrightarrow> va_l2_block_offset va = va_value va AND 0x1FFFFF"
  by (simp add: va_l2_block_offset_def calculate_block_offset_def GRANULE_4KB_CONFIG_def)

lemma descriptor_type_BLOCK: "descriptor_type d = BLOCK \<Longrightarrow> is_block d"
  by (simp add: descriptor_type_def split: if_splits)

text \<open>
  C3, as amended. If the stage-1 walk succeeds on a BLOCK descriptor at level 2 under
  the 4 KB granule, the returned IPA is the descriptor's output address
  \<open>value AND 0x0000FFFFFFE00000\<close> OR-ed with \<open>va AND 0x1FFFFF\<close>; for output \<open>0x80000000\<close> and
  block offset \<open>0x15030\<close> this is \<open>0x80015030\<close>.
\<close>

theorem l2_block_ipa:
  assumes "s1_success (fst (Stage1Walker_walk w va access_type is_el0))"
    and "s1e_level (last (s1_events (fst (Stage1Walker_walk w va access_type is_el0)))) = 2"
    and "s1e_descriptor_type (last (s1_events (fst (Stage1Walker_walk w va access_type is_el0))))
          = BLOCK"
    and "va_granule va = GRANULE_4KB_CONFIG"
  shows "s1_output_ipa (fst (Stage1Walker_walk w va access_type is_el0)) =
     Some ((s1e_descriptor_value
              (last (s1_events (fst (Stage1Walker_walk w va access_type is_el0))))
            AND 0x0000FFFFFFE00000) OR (va_value va AND 0x1FFFFF))"
proof -
  let ?r = "fst (Stage1Walker_walk w va access_type is_el0)"
  let ?e = "last (s1_events ?r)"
  have o: "s1_outcome va access_type is_el0 False False (s1_events ?r) ?r"
    by (rule Stage1Walker_walk_outcome)
  have ne: "s1_events ?r \<noteq> []" and ipa: "s1_output_ipa ?r = Some (s1_leaf_ipa (desc_of ?e) va)"
    using o assms(1) by (auto simp: s1_outcome_def split: if_splits)
  have "list_all (\<lambda>e. s1e_descriptor_type e = descriptor_type (desc_of e)) (s1_events ?r)"
    unfolding Stage1Walker_walk_def by (rule s1_walk_levels_types) simp
  then have "s1e_descriptor_type ?e = descriptor_type (desc_of ?e)"
    using ne by (simp add: list_all_iff)
  then have blk: "is_block (desc_of ?e)"
    using assms(3) descriptor_type_BLOCK by simp
  have lvl: "d_level (desc_of ?e) = 2"
    using assms(2) by (simp add: desc_of_def create_descriptor_def)
  have "s1_leaf_ipa (desc_of ?e) va =
      (s1e_descriptor_value ?e AND 0x0000FFFFFFE00000) OR (va_value va AND 0x1FFFFF)"
    using blk lvl block_offset_4KB[OF assms(4)]
    by (simp add: s1_leaf_ipa_def s2_leaf_base_def block_output_address_def desc_of_def
        create_descriptor_def)
  then show ?thesis using ipa by simp
qed

theorem l2_block_ipa_witness:
  "s1_success (fst (Stage1Walker_walk (pw_s1_walker block_walker block_va) block_va READ True)) \<and>
   s1e_level (last (s1_events
     (fst (Stage1Walker_walk (pw_s1_walker block_walker block_va) block_va READ True)))) = 2 \<and>
   s1e_descriptor_type (last (s1_events
     (fst (Stage1Walker_walk (pw_s1_walker block_walker block_va) block_va READ True)))) = BLOCK \<and>
   va_granule block_va = GRANULE_4KB_CONFIG \<and>
   s1_output_ipa (fst (Stage1Walker_walk (pw_s1_walker block_walker block_va) block_va READ True))
     = Some 0x80015030"
proof -
  let ?r = "fst (Stage1Walker_walk (pw_s1_walker block_walker block_va) block_va READ True)"
  have a: "s1_success ?r" by code_simp
  have b: "s1e_level (last (s1_events ?r)) = 2" by code_simp
  have c: "s1e_descriptor_type (last (s1_events ?r)) = BLOCK" by code_simp
  have d: "va_granule block_va = GRANULE_4KB_CONFIG" by (simp add: block_va_def)
  have v: "s1e_descriptor_value (last (s1_events ?r)) = 0x80000441" by code_simp
  have "s1_output_ipa ?r = Some ((0x80000441 AND 0x0000FFFFFFE00000) OR
      (va_value block_va AND 0x1FFFFF))"
    using l2_block_ipa[OF a b c d] unfolding v .
  then show ?thesis using a b c d by (simp add: block_va_def)
qed

theorem l2_block_ipa_counterexample:
  "s1_success (fst (Stage1Walker_walk (pw_s1_walker block_walker block_va) block_va READ True)) \<and>
   s1e_level (last (s1_events
     (fst (Stage1Walker_walk (pw_s1_walker block_walker block_va) block_va READ True)))) = 2 \<and>
   s1e_descriptor_type (last (s1_events
     (fst (Stage1Walker_walk (pw_s1_walker block_walker block_va) block_va READ True)))) = BLOCK \<and>
   s1e_descriptor_value (last (s1_events
     (fst (Stage1Walker_walk (pw_s1_walker block_walker block_va) block_va READ True))))
     AND 0x0000FFFFFFE00000 = 0x0000000080000000 \<and>
   va_l2_block_offset block_va = 0x15030 \<and>
   s1_output_ipa (fst (Stage1Walker_walk (pw_s1_walker block_walker block_va) block_va READ True))
     = Some 0x0000000080015030 \<and>
   s1_output_ipa (fst (Stage1Walker_walk (pw_s1_walker block_walker block_va) block_va READ True))
     \<noteq> Some 0x0000000080155030"
  by code_simp

lemma s1_outcome_tables:
  "s1_outcome va access_type is_el0 ul pl new r \<Longrightarrow>
     list_all (\<lambda>e. is_table (desc_of e)) (butlast new)"
  by (simp add: s1_outcome_def)

lemma s1_outcome_granted:
  "s1_outcome va access_type is_el0 ul pl new r \<Longrightarrow> new \<noteq> [] \<Longrightarrow>
   leaf_desc (desc_of (last new)) \<Longrightarrow>
   check_permission access_type (ap (desc_of (last new))) (final_uxn ul new) (final_pxn pl new)
     is_el0 \<Longrightarrow>
   s1_success r \<and> s1_output_ipa r = Some (s1_leaf_ipa (desc_of (last new)) va) \<and>
   s1_final_permissions r =
     Some (from_ap_bits (ap (desc_of (last new))) (final_uxn ul new) (final_pxn pl new)) \<and>
   s1_fault r = None"
  by (simp add: s1_outcome_def)

lemma s1_outcome_denied:
  "s1_outcome va access_type is_el0 ul pl new r \<Longrightarrow> new \<noteq> [] \<Longrightarrow>
   leaf_desc (desc_of (last new)) \<Longrightarrow>
   \<not> check_permission access_type (ap (desc_of (last new))) (final_uxn ul new)
     (final_pxn pl new) is_el0 \<Longrightarrow>
   \<not> s1_success r \<and> s1_output_ipa r = None \<and> s1_final_permissions r = None \<and>
   s1_fault r = Some (permission_fault va access_type (s1e_level (last new)))"
  by (simp add: s1_outcome_def)

lemma s1_outcome_no_leaf:
  "s1_outcome va access_type is_el0 ul pl new r \<Longrightarrow>
   \<not> (new \<noteq> [] \<and> leaf_desc (desc_of (last new))) \<Longrightarrow>
   \<not> s1_success r \<and> s1_output_ipa r = None \<and> s1_final_permissions r = None \<and>
   is_translation_fault (s1_fault r)"
  by (simp add: s1_outcome_def)

lemma s1_success_leaf:
  "s1_success (fst (Stage1Walker_walk w va access_type is_el0)) \<Longrightarrow>
     s1_events (fst (Stage1Walker_walk w va access_type is_el0)) \<noteq> [] \<and>
     leaf_desc (desc_of (last (s1_events (fst (Stage1Walker_walk w va access_type is_el0)))))"
  using s1_outcome_no_leaf[OF Stage1Walker_walk_outcome, of w va access_type is_el0]
  by blast

lemma final_uxn_False:
  "final_uxn False es \<longleftrightarrow>
     uxn (desc_of (last es)) \<or> list_ex (\<lambda>e. uxn_table (desc_of e)) (butlast es)"
  by (simp add: final_uxn_def)

lemma final_pxn_False:
  "final_pxn False es \<longleftrightarrow>
     pxn (desc_of (last es)) \<or> list_ex (\<lambda>e. pxn_table (desc_of e)) (butlast es)"
  by (simp add: final_pxn_def)

text \<open>
  C4. When the stage-1 walk ends on a leaf, every earlier event is a table descriptor,
  the final UXN is the leaf's UXN or any traversed \<open>uxn_table\<close> bit, the final PXN the
  leaf's PXN or any traversed \<open>pxn_table\<close> bit, the AP is the leaf's own, the walk
  succeeds exactly when \<open>check_permission\<close> accepts these, and on success the final
  permissions are \<open>from_ap_bits\<close> of them. The accumulated \<open>ap_limit\<close> changes nothing:
  the loop returns the same result and walker for any two values of it.
\<close>

theorem permission_combination:
  "(s1_success (fst (Stage1Walker_walk w va access_type is_el0)) \<longrightarrow>
      s1_events (fst (Stage1Walker_walk w va access_type is_el0)) \<noteq> [] \<and>
      leaf_desc (desc_of (last (s1_events (fst (Stage1Walker_walk w va access_type is_el0))))))
   \<and>
   (s1_events (fst (Stage1Walker_walk w va access_type is_el0)) \<noteq> [] \<and>
    leaf_desc (desc_of (last (s1_events (fst (Stage1Walker_walk w va access_type is_el0)))))
    \<longrightarrow>
      (let es = s1_events (fst (Stage1Walker_walk w va access_type is_el0));
           leaf = desc_of (last es);
           fin_uxn = (uxn leaf \<or> list_ex (\<lambda>e. uxn_table (desc_of e)) (butlast es));
           fin_pxn = (pxn leaf \<or> list_ex (\<lambda>e. pxn_table (desc_of e)) (butlast es))
       in list_all (\<lambda>e. is_table (desc_of e)) (butlast es) \<and>
          s1_success (fst (Stage1Walker_walk w va access_type is_el0)) =
            check_permission access_type (ap leaf) fin_uxn fin_pxn is_el0 \<and>
          (s1_success (fst (Stage1Walker_walk w va access_type is_el0)) \<longrightarrow>
             s1_final_permissions (fst (Stage1Walker_walk w va access_type is_el0)) =
               Some (from_ap_bits (ap leaf) fin_uxn fin_pxn))))
   \<and>
   s1_walk_levels w va access_type is_el0 ls cur ul pl al evs =
     s1_walk_levels w va access_type is_el0 ls cur ul pl al' evs"
proof -
  let ?r = "fst (Stage1Walker_walk w va access_type is_el0)"
  let ?es = "s1_events ?r"
  let ?leaf = "desc_of (last ?es)"
  let ?u = "uxn ?leaf \<or> list_ex (\<lambda>e. uxn_table (desc_of e)) (butlast ?es)"
  let ?p = "pxn ?leaf \<or> list_ex (\<lambda>e. pxn_table (desc_of e)) (butlast ?es)"
  have o: "s1_outcome va access_type is_el0 False False ?es ?r"
    by (rule Stage1Walker_walk_outcome)
  have a: "s1_success ?r \<longrightarrow> ?es \<noteq> [] \<and> leaf_desc ?leaf"
    using s1_success_leaf[of w va access_type is_el0] by blast
  have b: "list_all (\<lambda>e. is_table (desc_of e)) (butlast ?es) \<and>
      s1_success ?r = check_permission access_type (ap ?leaf) ?u ?p is_el0 \<and>
      (s1_success ?r \<longrightarrow> s1_final_permissions ?r = Some (from_ap_bits (ap ?leaf) ?u ?p))"
    if l: "?es \<noteq> [] \<and> leaf_desc ?leaf"
  proof (cases "check_permission access_type (ap ?leaf) ?u ?p is_el0")
    case True
    then have "check_permission access_type (ap ?leaf) (final_uxn False ?es)
        (final_pxn False ?es) is_el0"
      unfolding final_uxn_False final_pxn_False .
    from s1_outcome_granted[OF o conjunct1[OF l] conjunct2[OF l] this]
    have "s1_success ?r \<and>
        s1_final_permissions ?r = Some (from_ap_bits (ap ?leaf) ?u ?p)"
      unfolding final_uxn_False final_pxn_False by blast
    then show ?thesis using True s1_outcome_tables[OF o] by blast
  next
    case False
    then have "\<not> check_permission access_type (ap ?leaf) (final_uxn False ?es)
        (final_pxn False ?es) is_el0"
      unfolding final_uxn_False final_pxn_False .
    from s1_outcome_denied[OF o conjunct1[OF l] conjunct2[OF l] this]
    have "\<not> s1_success ?r" by blast
    then show ?thesis using False s1_outcome_tables[OF o] by blast
  qed
  have c: "s1_walk_levels w va access_type is_el0 ls cur ul pl al evs =
      s1_walk_levels w va access_type is_el0 ls cur ul pl al' evs"
    by (rule s1_walk_levels_ap_limit)
  show ?thesis
    unfolding Let_def
    apply (intro conjI impI)
    subgoal using a by blast
    subgoal using a by blast
    subgoal using b by blast
    subgoal using b by blast
    subgoal using b by blast
    subgoal by (rule c)
    done
qed

theorem permission_combination_witness:
  "s1_success (fst (Stage1Walker_walk (pw_s1_walker limits_walker scenario_va) scenario_va
      WRITE True)) \<and>
   ap_table (desc_of (hd (s1_events (fst (Stage1Walker_walk
      (pw_s1_walker limits_walker scenario_va) scenario_va WRITE True))))) = 3 \<and>
   s1_final_permissions (fst (Stage1Walker_walk (pw_s1_walker limits_walker scenario_va)
      scenario_va WRITE True)) = Some (from_ap_bits 1 True False) \<and>
   check_permission WRITE 1 True False True"
proof -
  let ?w = "pw_s1_walker limits_walker scenario_va"
  let ?r = "fst (Stage1Walker_walk ?w scenario_va WRITE True)"
  let ?es = "s1_events ?r"
  have s: "s1_success ?r" by code_simp
  have t: "ap_table (desc_of (hd ?es)) = 3" by code_simp
  have v: "ap (desc_of (last ?es)) = 1"
    "(uxn (desc_of (last ?es)) \<or> list_ex (\<lambda>e. uxn_table (desc_of e)) (butlast ?es)) = True"
    "(pxn (desc_of (last ?es)) \<or> list_ex (\<lambda>e. pxn_table (desc_of e)) (butlast ?es)) = False"
    by code_simp+
  have "s1_final_permissions ?r = Some (from_ap_bits 1 True False) \<and>
      check_permission WRITE 1 True False True"
    using permission_combination[of ?w scenario_va WRITE True "[]" 0 False False 0 "[]" 0] s
    unfolding Let_def v by blast
  then show ?thesis using s t by blast
qed

lemma s1_success_fields:
  assumes "s1_success (fst (Stage1Walker_walk w va access_type is_el0))"
  shows "s1_output_ipa (fst (Stage1Walker_walk w va access_type is_el0)) \<noteq> None \<and>
    s1_final_permissions (fst (Stage1Walker_walk w va access_type is_el0)) \<noteq> None \<and>
    s1_fault (fst (Stage1Walker_walk w va access_type is_el0)) = None"
proof -
  let ?r = "fst (Stage1Walker_walk w va access_type is_el0)"
  let ?es = "s1_events ?r"
  have o: "s1_outcome va access_type is_el0 False False ?es ?r"
    by (rule Stage1Walker_walk_outcome)
  have l: "?es \<noteq> []" "leaf_desc (desc_of (last ?es))"
    using s1_success_leaf[OF assms] by blast+
  have "check_permission access_type (ap (desc_of (last ?es))) (final_uxn False ?es)
      (final_pxn False ?es) is_el0"
    using s1_outcome_denied[OF o l] assms by blast
  from s1_outcome_granted[OF o l this] show ?thesis by simp
qed

lemma s1_fault_kinds:
  assumes "s1_fault (fst (Stage1Walker_walk w va access_type is_el0)) = Some f"
  shows "fault_type f = TRANSLATION_FAULT \<or>
    (f = permission_fault va access_type
           (s1e_level (last (s1_events (fst (Stage1Walker_walk w va access_type is_el0))))) \<and>
     s1_events (fst (Stage1Walker_walk w va access_type is_el0)) \<noteq> [] \<and>
     leaf_desc (desc_of (last (s1_events (fst (Stage1Walker_walk w va access_type is_el0))))) \<and>
     \<not> check_permission access_type
         (ap (desc_of (last (s1_events (fst (Stage1Walker_walk w va access_type is_el0))))))
         (final_uxn False (s1_events (fst (Stage1Walker_walk w va access_type is_el0))))
         (final_pxn False (s1_events (fst (Stage1Walker_walk w va access_type is_el0))))
         is_el0)"
proof -
  let ?r = "fst (Stage1Walker_walk w va access_type is_el0)"
  let ?es = "s1_events ?r"
  have o: "s1_outcome va access_type is_el0 False False ?es ?r"
    by (rule Stage1Walker_walk_outcome)
  show ?thesis
  proof (cases "?es \<noteq> [] \<and> leaf_desc (desc_of (last ?es))")
    case False
    from s1_outcome_no_leaf[OF o False] have "is_translation_fault (s1_fault ?r)" by blast
    then show ?thesis using assms by (simp add: is_translation_fault_def)
  next
    case True
    then have l: "?es \<noteq> []" "leaf_desc (desc_of (last ?es))" by blast+
    show ?thesis
    proof (cases "check_permission access_type (ap (desc_of (last ?es)))
        (final_uxn False ?es) (final_pxn False ?es) is_el0")
      case True
      from s1_outcome_granted[OF o l True] have "s1_fault ?r = None" by blast
      then show ?thesis using assms by simp
    next
      case False
      from s1_outcome_denied[OF o l False]
      have "s1_fault ?r = Some (permission_fault va access_type (s1e_level (last ?es)))"
        by blast
      then show ?thesis using assms l False by simp
    qed
  qed
qed

lemma pw_s2_final_fault:
  "s2_fault (pw_s2_final self va access_type is_el0) = Some f \<Longrightarrow>
     fault_type f = TRANSLATION_FAULT \<and> f_stage f = 2"
  unfolding pw_s2_final_def using Stage2Walker_walk_fault by blast

lemma walk_fault_cases:
  assumes "wr_fault (fst (PageTableWalker_walk self va access_type is_el0)) = Some f"
  shows "(\<not> s1_success (pw_s1_result self va access_type is_el0) \<and>
          wr_status (fst (PageTableWalker_walk self va access_type is_el0)) = S1_FAULT \<and>
          wr_ipa (fst (PageTableWalker_walk self va access_type is_el0)) = None \<and>
          wr_output_pa (fst (PageTableWalker_walk self va access_type is_el0)) = None \<and>
          s1_fault (pw_s1_result self va access_type is_el0) = Some f) \<or>
         (s1_success (pw_s1_result self va access_type is_el0) \<and>
          wr_status (fst (PageTableWalker_walk self va access_type is_el0)) = S2_FINAL_FAULT \<and>
          s2_fault (pw_s2_final self va access_type is_el0) = Some f)"
  using assms by (simp add: walk_result Let_def split: if_splits)

text \<open>
  C5. \<open>check_permission\<close> is the AP table: EL1 reads always pass, EL1 writes pass for
  AP 00 and 01, EL0 reads for AP 01 and 11, EL0 writes for AP 01 only, EL0 execution
  needs UXN clear and EL1 execution PXN clear. When the stage-1 walk ends on a leaf that
  the check denies, it fails with the fault record \<open>{PERMISSION, stage 1, the leaf's
  level, access_type, far_el1 = va}\<close> and no IPA; and a walk whose fault is a permission
  fault has status \<open>S1_FAULT\<close> and reports neither IPA nor PA.
\<close>

theorem permission_gate:
  "check_permission READ a u p False \<and>
   (check_permission WRITE a u p False \<longleftrightarrow> a = 0 \<or> a = 1) \<and>
   (check_permission READ a u p True \<longleftrightarrow> a = 1 \<or> a = 3) \<and>
   (check_permission WRITE a u p True \<longleftrightarrow> a = 1) \<and>
   (check_permission EXECUTE a u p True \<longleftrightarrow> \<not> u) \<and>
   (check_permission EXECUTE a u p False \<longleftrightarrow> \<not> p) \<and>
   (let r = fst (Stage1Walker_walk w va access_type is_el0);
        es = s1_events r;
        leaf = desc_of (last es);
        fin_uxn = (uxn leaf \<or> list_ex (\<lambda>e. uxn_table (desc_of e)) (butlast es));
        fin_pxn = (pxn leaf \<or> list_ex (\<lambda>e. pxn_table (desc_of e)) (butlast es))
    in es \<noteq> [] \<and> leaf_desc leaf \<and>
       \<not> check_permission access_type (ap leaf) fin_uxn fin_pxn is_el0 \<longrightarrow>
         \<not> s1_success r \<and> s1_output_ipa r = None \<and> s1_final_permissions r = None \<and>
         s1_fault r = Some \<lparr>fault_type = PERMISSION_FAULT, f_stage = 1,
           f_level = s1e_level (last es), f_address = va_value va,
           f_access_type = Some access_type, far_el1 = Some (va_value va),
           far_el2 = None\<rparr>) \<and>
   (\<forall>f. wr_fault (fst (PageTableWalker_walk self va access_type is_el0)) = Some f \<and>
        fault_type f = PERMISSION_FAULT \<longrightarrow>
        wr_status (fst (PageTableWalker_walk self va access_type is_el0)) = S1_FAULT \<and>
        wr_ipa (fst (PageTableWalker_walk self va access_type is_el0)) = None \<and>
        wr_output_pa (fst (PageTableWalker_walk self va access_type is_el0)) = None)"
proof -
  let ?r = "fst (Stage1Walker_walk w va access_type is_el0)"
  let ?es = "s1_events ?r"
  have o: "s1_outcome va access_type is_el0 False False ?es ?r"
    by (rule Stage1Walker_walk_outcome)
  have t: "check_permission READ a u p False \<and>
     (check_permission WRITE a u p False \<longleftrightarrow> a = 0 \<or> a = 1) \<and>
     (check_permission READ a u p True \<longleftrightarrow> a = 1 \<or> a = 3) \<and>
     (check_permission WRITE a u p True \<longleftrightarrow> a = 1) \<and>
     (check_permission EXECUTE a u p True \<longleftrightarrow> \<not> u) \<and>
     (check_permission EXECUTE a u p False \<longleftrightarrow> \<not> p)"
    by (simp add: check_permission_def)
  have d: "\<not> s1_success ?r \<and> s1_output_ipa ?r = None \<and> s1_final_permissions ?r = None \<and>
      s1_fault ?r = Some \<lparr>fault_type = PERMISSION_FAULT, f_stage = 1,
        f_level = s1e_level (last ?es), f_address = va_value va,
        f_access_type = Some access_type, far_el1 = Some (va_value va), far_el2 = None\<rparr>"
    if "?es \<noteq> []" "leaf_desc (desc_of (last ?es))"
      "\<not> check_permission access_type (ap (desc_of (last ?es))) (final_uxn False ?es)
          (final_pxn False ?es) is_el0"
    using s1_outcome_denied[OF o that] by (simp add: permission_fault_def)
  have w: "wr_status (fst (PageTableWalker_walk self va access_type is_el0)) = S1_FAULT \<and>
      wr_ipa (fst (PageTableWalker_walk self va access_type is_el0)) = None \<and>
      wr_output_pa (fst (PageTableWalker_walk self va access_type is_el0)) = None"
    if "wr_fault (fst (PageTableWalker_walk self va access_type is_el0)) = Some f"
      "fault_type f = PERMISSION_FAULT" for f
    using walk_fault_cases[OF that(1)] pw_s2_final_fault[of self va access_type is_el0 f] that(2)
    by auto
  show ?thesis
    unfolding Let_def
    apply (intro conjI allI impI)
    subgoal using t by blast
    subgoal using t by blast
    subgoal using t by blast
    subgoal using t by blast
    subgoal using t by blast
    subgoal using t by blast
    subgoal using d unfolding final_uxn_False final_pxn_False by blast
    subgoal using d unfolding final_uxn_False final_pxn_False by blast
    subgoal using d unfolding final_uxn_False final_pxn_False by blast
    subgoal using d unfolding final_uxn_False final_pxn_False by blast
    subgoal using w by blast
    subgoal using w by blast
    subgoal using w by blast
    done
qed

theorem permission_gate_witness:
  "s1_events (fst (Stage1Walker_walk (pw_s1_walker perm_walker scenario_va) scenario_va WRITE
      True)) \<noteq> [] \<and>
   leaf_desc (desc_of (last (s1_events (fst (Stage1Walker_walk
      (pw_s1_walker perm_walker scenario_va) scenario_va WRITE True))))) \<and>
   ap (desc_of (last (s1_events (fst (Stage1Walker_walk
      (pw_s1_walker perm_walker scenario_va) scenario_va WRITE True))))) = 2 \<and>
   \<not> check_permission WRITE 2 False False True \<and>
   s1_output_ipa (fst (Stage1Walker_walk (pw_s1_walker perm_walker scenario_va) scenario_va
      WRITE True)) = None \<and>
   s1_fault (fst (Stage1Walker_walk (pw_s1_walker perm_walker scenario_va) scenario_va WRITE
      True)) =
     Some \<lparr>fault_type = PERMISSION_FAULT, f_stage = 1, f_level = 3, f_address = 0x40201030,
       f_access_type = Some WRITE, far_el1 = Some 0x40201030, far_el2 = None\<rparr> \<and>
   wr_status (fst (PageTableWalker_walk perm_walker scenario_va WRITE True)) = S1_FAULT \<and>
   wr_ipa (fst (PageTableWalker_walk perm_walker scenario_va WRITE True)) = None"
proof -
  let ?w = "pw_s1_walker perm_walker scenario_va"
  let ?r = "fst (Stage1Walker_walk ?w scenario_va WRITE True)"
  let ?es = "s1_events ?r"
  let ?wr = "fst (PageTableWalker_walk perm_walker scenario_va WRITE True)"
  let ?f = "\<lparr>fault_type = PERMISSION_FAULT, f_stage = 1, f_level = 3, f_address = 0x40201030,
       f_access_type = Some WRITE, far_el1 = Some 0x40201030, far_el2 = None\<rparr>"
  note g = permission_gate[of 2 False False ?w scenario_va WRITE True perm_walker,
      unfolded Let_def]
  have h1: "?es \<noteq> []" by code_simp
  have h2: "leaf_desc (desc_of (last ?es))" by code_simp
  have v: "ap (desc_of (last ?es)) = 2"
    "(uxn (desc_of (last ?es)) \<or> list_ex (\<lambda>e. uxn_table (desc_of e)) (butlast ?es)) = False"
    "(pxn (desc_of (last ?es)) \<or> list_ex (\<lambda>e. pxn_table (desc_of e)) (butlast ?es)) = False"
    "s1e_level (last ?es) = 3" "va_value scenario_va = 0x40201030"
    by code_simp+
  have h3: "\<not> check_permission WRITE 2 False False True"
    using g[THEN conjunct2, THEN conjunct2, THEN conjunct2, THEN conjunct1] by simp
  have h4: "wr_fault ?wr = Some ?f \<and> fault_type ?f = PERMISSION_FAULT" by code_simp
  have s1: "s1_output_ipa ?r = None \<and> s1_fault ?r = Some ?f"
    using g h1 h2 h3 unfolding v by blast
  have s2: "wr_status ?wr = S1_FAULT \<and> wr_ipa ?wr = None"
    using g h4 by blast
  show ?thesis using h1 h2 v(1) h3 s1 s2 by blast
qed

section \<open>Claims about faults and the assembled result\<close>

lemma walk_s1_result:
  "wr_s1_result (fst (PageTableWalker_walk self va access_type is_el0)) =
     Some (pw_s1_result self va access_type is_el0)"
  by (simp add: walk_result Let_def)

text \<open>
  C9. Every fault of a stage-2 walk is a translation fault of stage 2. Every fault a
  walk returns is a translation or a permission fault, never an access-flag or
  address-size fault; a fault of stage 2 is a translation fault; and a permission fault
  has stage 1, comes with status \<open>S1_FAULT\<close>, and its level is that of the last stage-1
  event, which records a leaf descriptor.
\<close>

theorem fault_kinds:
  "(\<forall>f. s2_fault (fst (Stage2Walker_walk w2 ipa access_type2)) = Some f \<longrightarrow>
        fault_type f = TRANSLATION_FAULT \<and> f_stage f = 2) \<and>
   wr_s1_result (fst (PageTableWalker_walk self va access_type is_el0)) \<noteq> None \<and>
   (\<forall>f s1r. wr_fault (fst (PageTableWalker_walk self va access_type is_el0)) = Some f \<and>
        wr_s1_result (fst (PageTableWalker_walk self va access_type is_el0)) = Some s1r \<longrightarrow>
        fault_type f \<noteq> ACCESS_FLAG_FAULT \<and> fault_type f \<noteq> ADDRESS_SIZE_FAULT \<and>
        (f_stage f = 2 \<longrightarrow> fault_type f = TRANSLATION_FAULT) \<and>
        (fault_type f = PERMISSION_FAULT \<longrightarrow>
           f_stage f = 1 \<and>
           wr_status (fst (PageTableWalker_walk self va access_type is_el0)) = S1_FAULT \<and>
           s1_events s1r \<noteq> [] \<and> leaf_desc (desc_of (last (s1_events s1r))) \<and>
           f_level f = s1e_level (last (s1_events s1r))))"
proof -
  let ?wr = "fst (PageTableWalker_walk self va access_type is_el0)"
  let ?s1r = "pw_s1_result self va access_type is_el0"
  have a: "fault_type f = TRANSLATION_FAULT \<and> f_stage f = 2"
    if "s2_fault (fst (Stage2Walker_walk w2 ipa access_type2)) = Some f" for f
    using Stage2Walker_walk_fault[OF that] by blast
  have k: "fault_type f = TRANSLATION_FAULT \<or>
      (f = permission_fault va access_type (s1e_level (last (s1_events ?s1r))) \<and>
       wr_status ?wr = S1_FAULT \<and> s1_events ?s1r \<noteq> [] \<and>
       leaf_desc (desc_of (last (s1_events ?s1r))))"
    if "wr_fault ?wr = Some f" for f
    using walk_fault_cases[OF that]
  proof (elim disjE conjE)
    assume "s1_fault ?s1r = Some f" and st: "wr_status ?wr = S1_FAULT"
    then have "s1_fault (fst (Stage1Walker_walk (pw_s1_walker self va) va access_type is_el0))
        = Some f"
      by (simp add: pw_s1_result_def)
    from s1_fault_kinds[OF this] st show ?thesis
      unfolding pw_s1_result_def by blast
  next
    assume "s2_fault (pw_s2_final self va access_type is_el0) = Some f"
    from pw_s2_final_fault[OF this] show ?thesis by blast
  qed
  have b: "fault_type f \<noteq> ACCESS_FLAG_FAULT \<and> fault_type f \<noteq> ADDRESS_SIZE_FAULT \<and>
      (f_stage f = 2 \<longrightarrow> fault_type f = TRANSLATION_FAULT) \<and>
      (fault_type f = PERMISSION_FAULT \<longrightarrow>
         f_stage f = 1 \<and> wr_status ?wr = S1_FAULT \<and>
         s1_events ?s1r \<noteq> [] \<and> leaf_desc (desc_of (last (s1_events ?s1r))) \<and>
         f_level f = s1e_level (last (s1_events ?s1r)))"
    if "wr_fault ?wr = Some f" for f
    using k[OF that]
  proof
    assume "fault_type f = TRANSLATION_FAULT"
    then show ?thesis by simp
  next
    assume p: "f = permission_fault va access_type (s1e_level (last (s1_events ?s1r))) \<and>
       wr_status ?wr = S1_FAULT \<and> s1_events ?s1r \<noteq> [] \<and>
       leaf_desc (desc_of (last (s1_events ?s1r)))"
    then have "fault_type f = PERMISSION_FAULT" "f_stage f = 1"
      "f_level f = s1e_level (last (s1_events ?s1r))"
      by (simp_all add: permission_fault_def)
    then show ?thesis using p by simp
  qed
  have c: "wr_s1_result ?wr \<noteq> None"
    by (simp add: walk_s1_result)
  have d: "s1r = ?s1r" if "wr_s1_result ?wr = Some s1r" for s1r
    using that by (simp add: walk_s1_result)
  show ?thesis
    apply (intro conjI allI impI)
    subgoal using a by blast
    subgoal using a by blast
    subgoal by (rule c)
    subgoal using b by blast
    subgoal using b by blast
    subgoal using b by blast
    subgoal using b by blast
    subgoal using b by blast
    subgoal for f s1r using b[of f] d[of s1r] by blast
    subgoal for f s1r using b[of f] d[of s1r] by blast
    subgoal for f s1r using b[of f] d[of s1r] by blast
    done
qed

theorem fault_kinds_witness:
  "s2_fault (fst (Stage2Walker_walk (pw_stage2_walker s2final_walker) 0x50000030 READ)) =
     Some \<lparr>fault_type = TRANSLATION_FAULT, f_stage = 2, f_level = 3, f_address = 0x50000030,
       f_access_type = None, far_el1 = None, far_el2 = Some 0x50000030\<rparr> \<and>
   wr_fault (fst (PageTableWalker_walk perm_walker scenario_va WRITE True)) =
     Some \<lparr>fault_type = PERMISSION_FAULT, f_stage = 1, f_level = 3, f_address = 0x40201030,
       f_access_type = Some WRITE, far_el1 = Some 0x40201030, far_el2 = None\<rparr> \<and>
   wr_status (fst (PageTableWalker_walk perm_walker scenario_va WRITE True)) = S1_FAULT \<and>
   s1e_level (last (s1_events (the (wr_s1_result
     (fst (PageTableWalker_walk perm_walker scenario_va WRITE True)))))) = 3 \<and>
   leaf_desc (desc_of (last (s1_events (the (wr_s1_result
     (fst (PageTableWalker_walk perm_walker scenario_va WRITE True)))))))"
proof -
  let ?f2 = "\<lparr>fault_type = TRANSLATION_FAULT, f_stage = 2, f_level = 3, f_address = 0x50000030,
       f_access_type = None, far_el1 = None, far_el2 = Some 0x50000030\<rparr>"
  let ?f1 = "\<lparr>fault_type = PERMISSION_FAULT, f_stage = 1, f_level = 3, f_address = 0x40201030,
       f_access_type = Some WRITE, far_el1 = Some 0x40201030, far_el2 = None\<rparr>"
  let ?wr = "fst (PageTableWalker_walk perm_walker scenario_va WRITE True)"
  note g = fault_kinds[of "pw_stage2_walker s2final_walker" "0x50000030" READ perm_walker
      scenario_va WRITE True]
  have h1: "s2_fault (fst (Stage2Walker_walk (pw_stage2_walker s2final_walker) 0x50000030 READ))
      = Some ?f2"
    by code_simp
  have h2: "wr_fault ?wr = Some ?f1" by code_simp
  have h3: "fault_type ?f1 = PERMISSION_FAULT" by simp
  obtain s1r where s: "wr_s1_result ?wr = Some s1r"
    using g by blast
  have "fault_type ?f2 = TRANSLATION_FAULT \<and> f_stage ?f2 = 2"
    using g h1 by blast
  have "wr_status ?wr = S1_FAULT \<and> leaf_desc (desc_of (last (s1_events s1r))) \<and>
      f_level ?f1 = s1e_level (last (s1_events s1r))"
    using g h2 h3 s by blast
  then show ?thesis using h1 h2 s by simp
qed

text \<open>
  C10. The result always carries the stage-1 result. With status \<open>S2_FINAL_FAULT\<close> the
  stage-1 walk had succeeded, the result's IPA and final permissions are those of the
  stage-1 result and are present, and there is no PA. When the stage-1 walk failed, the
  status is \<open>S1_FAULT\<close> and the result has no IPA, no PA and no final permissions.
\<close>

theorem result_fields:
  "wr_s1_result (fst (PageTableWalker_walk self va access_type is_el0)) \<noteq> None \<and>
   (\<forall>s1r. wr_s1_result (fst (PageTableWalker_walk self va access_type is_el0)) = Some s1r \<longrightarrow>
      (wr_status (fst (PageTableWalker_walk self va access_type is_el0)) = S2_FINAL_FAULT \<longrightarrow>
         s1_success s1r \<and>
         wr_output_pa (fst (PageTableWalker_walk self va access_type is_el0)) = None \<and>
         wr_ipa (fst (PageTableWalker_walk self va access_type is_el0)) = s1_output_ipa s1r \<and>
         s1_output_ipa s1r \<noteq> None \<and>
         wr_final_permissions (fst (PageTableWalker_walk self va access_type is_el0)) =
           s1_final_permissions s1r \<and>
         s1_final_permissions s1r \<noteq> None) \<and>
      (\<not> s1_success s1r \<longrightarrow>
         wr_status (fst (PageTableWalker_walk self va access_type is_el0)) = S1_FAULT \<and>
         wr_ipa (fst (PageTableWalker_walk self va access_type is_el0)) = None \<and>
         wr_output_pa (fst (PageTableWalker_walk self va access_type is_el0)) = None \<and>
         wr_final_permissions (fst (PageTableWalker_walk self va access_type is_el0)) = None))"
proof -
  let ?wr = "fst (PageTableWalker_walk self va access_type is_el0)"
  let ?s1r = "pw_s1_result self va access_type is_el0"
  have c: "wr_s1_result ?wr \<noteq> None"
    by (simp add: walk_s1_result)
  have d: "s1r = ?s1r" if "wr_s1_result ?wr = Some s1r" for s1r
    using that by (simp add: walk_s1_result)
  have f: "s1_success ?s1r \<Longrightarrow> s1_output_ipa ?s1r \<noteq> None \<and> s1_final_permissions ?s1r \<noteq> None"
    unfolding pw_s1_result_def using s1_success_fields by blast
  have a: "s1_success ?s1r \<and> wr_output_pa ?wr = None \<and> wr_ipa ?wr = s1_output_ipa ?s1r \<and>
      s1_output_ipa ?s1r \<noteq> None \<and> wr_final_permissions ?wr = s1_final_permissions ?s1r \<and>
      s1_final_permissions ?s1r \<noteq> None"
    if "wr_status ?wr = S2_FINAL_FAULT"
  proof -
    have s: "s1_success ?s1r"
      using that by (simp add: walk_result Let_def split: if_splits)
    then have "wr_output_pa ?wr = None \<and> wr_ipa ?wr = s1_output_ipa ?s1r \<and>
        wr_final_permissions ?wr = s1_final_permissions ?s1r"
      using that by (simp add: walk_result Let_def split: if_splits)
    then show ?thesis using s f by blast
  qed
  have b: "wr_status ?wr = S1_FAULT \<and> wr_ipa ?wr = None \<and> wr_output_pa ?wr = None \<and>
      wr_final_permissions ?wr = None"
    if "\<not> s1_success ?s1r"
    using that by (simp add: walk_result Let_def)
  show ?thesis
    using a b c d by blast
qed

theorem result_fields_witness:
  "wr_status (fst (PageTableWalker_walk s2final_walker scenario_va READ True)) = S2_FINAL_FAULT \<and>
   wr_ipa (fst (PageTableWalker_walk s2final_walker scenario_va READ True)) = Some 0x50000030 \<and>
   wr_final_permissions (fst (PageTableWalker_walk s2final_walker scenario_va READ True)) =
     Some (from_ap_bits 1 False False) \<and>
   wr_output_pa (fst (PageTableWalker_walk s2final_walker scenario_va READ True)) = None \<and>
   \<not> s1_success (the (wr_s1_result
       (fst (PageTableWalker_walk s1fault_walker scenario_va READ True)))) \<and>
   wr_status (fst (PageTableWalker_walk s1fault_walker scenario_va READ True)) = S1_FAULT \<and>
   wr_ipa (fst (PageTableWalker_walk s1fault_walker scenario_va READ True)) = None \<and>
   wr_output_pa (fst (PageTableWalker_walk s1fault_walker scenario_va READ True)) = None \<and>
   wr_final_permissions (fst (PageTableWalker_walk s1fault_walker scenario_va READ True)) = None"
proof -
  let ?a = "fst (PageTableWalker_walk s2final_walker scenario_va READ True)"
  let ?b = "fst (PageTableWalker_walk s1fault_walker scenario_va READ True)"
  note ga = result_fields[of s2final_walker scenario_va READ True]
  note gb = result_fields[of s1fault_walker scenario_va READ True]
  have h1: "wr_status ?a = S2_FINAL_FAULT" by code_simp
  have v: "wr_ipa ?a = Some 0x50000030"
    "wr_final_permissions ?a = Some (from_ap_bits 1 False False)"
    by code_simp+
  obtain ra where ra: "wr_s1_result ?a = Some ra" using ga by blast
  obtain rb where rb: "wr_s1_result ?b = Some rb" using gb by blast
  have h2: "\<not> s1_success (the (wr_s1_result ?b))" by code_simp
  then have h2': "\<not> s1_success rb" using rb by simp
  have "wr_output_pa ?a = None" using ga ra h1 by blast
  moreover have "wr_status ?b = S1_FAULT \<and> wr_ipa ?b = None \<and> wr_output_pa ?b = None \<and>
      wr_final_permissions ?b = None"
    using gb rb h2' by blast
  ultimately show ?thesis using h1 v h2 by blast
qed

lemma absent_reads_zero: "tables a = None \<Longrightarrow> read_descriptor tables a = 0"
  by (simp add: read_descriptor_def)

lemma zero_descriptor_invalid:
  "\<not> is_valid (create_descriptor 0 level s) \<and>
   descriptor_type (create_descriptor 0 level s) = INVALID"
  by (simp add: is_valid_def descriptor_type_def create_descriptor_def)

text \<open>
  C6. In any iteration of either walker, if the address of the descriptor to fetch is
  absent from the translation table, the fetch yields 0, which is INVALID at every
  level, and the walk returns at once: failure with a translation fault carrying the
  walker's stage and this level, the input address as faulting address (\<open>far_el2 = ipa\<close>
  in stage 2, \<open>far_el1 = va\<close> in stage 1), and the events so far followed by this
  level's event, which is the last one.
\<close>

theorem absent_descriptor_faults:
  "(s2w_translation_tables w2 (calculate_descriptor_address cur2 (ipa_get_index ipa level2) 8)
      = None \<longrightarrow>
      read_descriptor (s2w_translation_tables w2)
        (calculate_descriptor_address cur2 (ipa_get_index ipa level2) 8) = 0 \<and>
      descriptor_type (create_descriptor 0 level2 True) = INVALID \<and>
      fst (s2_walk_levels w2 ipa (level2 # rest2) cur2 evs2) =
        \<lparr>s2_success = False, s2_input_ipa = ipa, s2_output_pa = None,
         s2_events = evs2 @
           [\<lparr>s2e_event_id = s2w_event_counter w2 + 1, s2e_level = level2,
             s2e_table_base_pa = cur2, s2e_index = ipa_get_index ipa level2,
             s2e_descriptor_address =
               calculate_descriptor_address cur2 (ipa_get_index ipa level2) 8,
             s2e_descriptor_value = 0, s2e_descriptor_type = INVALID,
             s2e_output_address = 0\<rparr>],
         s2_fault = Some \<lparr>fault_type = TRANSLATION_FAULT, f_stage = 2, f_level = level2,
           f_address = ipa, f_access_type = None, far_el1 = None, far_el2 = Some ipa\<rparr>\<rparr>)
   \<and>
   (s2_output_pa (fst (Stage2Walker_walk (stage2_walker w1) cur1 access_type)) = Some table_pa \<and>
    s1w_translation_tables w1 (calculate_descriptor_address table_pa (va_get_index va level1) 8)
      = None \<longrightarrow>
      read_descriptor (s1w_translation_tables w1)
        (calculate_descriptor_address table_pa (va_get_index va level1) 8) = 0 \<and>
      descriptor_type (create_descriptor 0 level1 False) = INVALID \<and>
      fst (s1_walk_levels w1 va access_type is_el0 (level1 # rest1) cur1 ul pl al evs1) =
        \<lparr>s1_success = False, s1_input_va = va, s1_output_ipa = None,
         s1_events = evs1 @
           [\<lparr>s1e_event_id = s1w_event_counter w1 + 1, s1e_level = level1,
             s1e_table_base_ipa = cur1, s1e_table_base_pa = table_pa,
             s1e_index = va_get_index va level1,
             s1e_descriptor_address_pa =
               calculate_descriptor_address table_pa (va_get_index va level1) 8,
             s1e_descriptor_value = 0, s1e_descriptor_type = INVALID,
             s1e_output_address = 0,
             s1e_s2_events =
               s2_events (fst (Stage2Walker_walk (stage2_walker w1) cur1 access_type))\<rparr>],
         s1_fault = Some \<lparr>fault_type = TRANSLATION_FAULT, f_stage = 1, f_level = level1,
           f_address = va_value va, f_access_type = None, far_el1 = Some (va_value va),
           far_el2 = None\<rparr>,
         s1_final_permissions = None\<rparr>)"
proof -
  have a: "fst (s2_walk_levels w2 ipa (level2 # rest2) cur2 evs2) =
        \<lparr>s2_success = False, s2_input_ipa = ipa, s2_output_pa = None,
         s2_events = evs2 @
           [\<lparr>s2e_event_id = s2w_event_counter w2 + 1, s2e_level = level2,
             s2e_table_base_pa = cur2, s2e_index = ipa_get_index ipa level2,
             s2e_descriptor_address =
               calculate_descriptor_address cur2 (ipa_get_index ipa level2) 8,
             s2e_descriptor_value = 0, s2e_descriptor_type = INVALID,
             s2e_output_address = 0\<rparr>],
         s2_fault = Some \<lparr>fault_type = TRANSLATION_FAULT, f_stage = 2, f_level = level2,
           f_address = ipa, f_access_type = None, far_el1 = None, far_el2 = Some ipa\<rparr>\<rparr>"
    if n: "s2w_translation_tables w2
        (calculate_descriptor_address cur2 (ipa_get_index ipa level2) 8) = None"
  proof -
    have d: "s2_desc w2 ipa level2 cur2 = create_descriptor 0 level2 True"
      using n by (simp add: s2_desc_def read_descriptor_def)
    show ?thesis
      using zero_descriptor_invalid[of level2 True]
      by (simp add: s2_step Let_def d s2_event_def create_descriptor_def)
  qed
  have b: "fst (s1_walk_levels w1 va access_type is_el0 (level1 # rest1) cur1 ul pl al evs1) =
        \<lparr>s1_success = False, s1_input_va = va, s1_output_ipa = None,
         s1_events = evs1 @
           [\<lparr>s1e_event_id = s1w_event_counter w1 + 1, s1e_level = level1,
             s1e_table_base_ipa = cur1, s1e_table_base_pa = table_pa,
             s1e_index = va_get_index va level1,
             s1e_descriptor_address_pa =
               calculate_descriptor_address table_pa (va_get_index va level1) 8,
             s1e_descriptor_value = 0, s1e_descriptor_type = INVALID,
             s1e_output_address = 0,
             s1e_s2_events =
               s2_events (fst (Stage2Walker_walk (stage2_walker w1) cur1 access_type))\<rparr>],
         s1_fault = Some \<lparr>fault_type = TRANSLATION_FAULT, f_stage = 1, f_level = level1,
           f_address = va_value va, f_access_type = None, far_el1 = Some (va_value va),
           far_el2 = None\<rparr>,
         s1_final_permissions = None\<rparr>"
    if p: "s2_output_pa (fst (Stage2Walker_walk (stage2_walker w1) cur1 access_type))
        = Some table_pa"
      and n: "s1w_translation_tables w1
        (calculate_descriptor_address table_pa (va_get_index va level1) 8) = None"
  proof -
    have s: "s2_success (s1_nested w1 cur1 access_type)"
      unfolding s1_nested_def using p Stage2Walker_walk_output[of "stage2_walker w1" cur1
          access_type] by simp
    have t: "the (s2_output_pa (s1_nested w1 cur1 access_type)) = table_pa"
      unfolding s1_nested_def using p by simp
    have d: "s1_desc w1 va level1 cur1 access_type = create_descriptor 0 level1 False"
      using n by (simp add: s1_desc_def t read_descriptor_def)
    have e: "s2_events (s1_nested w1 cur1 access_type) =
        s2_events (fst (Stage2Walker_walk (stage2_walker w1) cur1 access_type))"
      by (simp add: s1_nested_def)
    show ?thesis
      using zero_descriptor_invalid[of level1 False] s
      by (simp add: s1_step Let_def d t e s1_event_def create_descriptor_def)
  qed
  show ?thesis
    apply (intro conjI impI)
    subgoal by (simp add: read_descriptor_def)
    subgoal using zero_descriptor_invalid by blast
    subgoal by (rule a)
    subgoal by (simp add: read_descriptor_def)
    subgoal using zero_descriptor_invalid by blast
    subgoal by (erule conjE) (rule b)
    done
qed

theorem absent_descriptor_faults_witness:
  "s2w_translation_tables (pw_stage2_walker s2fault_walker)
     (calculate_descriptor_address 0x100004000 (ipa_get_index 0x4001000 3) 8) = None \<and>
   s2_fault (fst (s2_walk_levels (pw_stage2_walker s2fault_walker) 0x4001000 [3] 0x100004000 []))
     = Some \<lparr>fault_type = TRANSLATION_FAULT, f_stage = 2, f_level = 3, f_address = 0x4001000,
         f_access_type = None, far_el1 = None, far_el2 = Some 0x4001000\<rparr> \<and>
   s2_output_pa (fst (Stage2Walker_walk
     (stage2_walker (pw_s1_walker s1fault_walker scenario_va)) 0x4002000 READ)) = Some 0x4002000 \<and>
   s1w_translation_tables (pw_s1_walker s1fault_walker scenario_va)
     (calculate_descriptor_address 0x4002000 (va_get_index scenario_va 2) 8) = None \<and>
   s1_fault (fst (s1_walk_levels (pw_s1_walker s1fault_walker scenario_va) scenario_va READ True
      [2, 3] 0x4002000 False False 0 [])) =
     Some \<lparr>fault_type = TRANSLATION_FAULT, f_stage = 1, f_level = 2,
       f_address = va_value scenario_va, f_access_type = None,
       far_el1 = Some (va_value scenario_va), far_el2 = None\<rparr>"
proof -
  let ?w2 = "pw_stage2_walker s2fault_walker"
  let ?w1 = "pw_s1_walker s1fault_walker scenario_va"
  note g = absent_descriptor_faults[of ?w2 "0x100004000" "0x4001000" 3 "[]" "[]" ?w1 "0x4002000"
      READ "0x4002000" scenario_va 2 True "[3]" False False 0 "[]"]
  have h1: "s2w_translation_tables ?w2
     (calculate_descriptor_address 0x100004000 (ipa_get_index 0x4001000 3) 8) = None"
    by code_simp
  have h2: "s2_output_pa (fst (Stage2Walker_walk (stage2_walker ?w1) 0x4002000 READ))
      = Some 0x4002000"
    by code_simp
  have h3: "s1w_translation_tables ?w1
     (calculate_descriptor_address 0x4002000 (va_get_index scenario_va 2) 8) = None"
    by code_simp
  have a: "fst (s2_walk_levels ?w2 0x4001000 [3] 0x100004000 []) = 
        \<lparr>s2_success = False, s2_input_ipa = 0x4001000, s2_output_pa = None,
         s2_events = [] @
           [\<lparr>s2e_event_id = s2w_event_counter ?w2 + 1, s2e_level = 3,
             s2e_table_base_pa = 0x100004000, s2e_index = ipa_get_index 0x4001000 3,
             s2e_descriptor_address =
               calculate_descriptor_address 0x100004000 (ipa_get_index 0x4001000 3) 8,
             s2e_descriptor_value = 0, s2e_descriptor_type = INVALID,
             s2e_output_address = 0\<rparr>],
         s2_fault = Some \<lparr>fault_type = TRANSLATION_FAULT, f_stage = 2, f_level = 3,
           f_address = 0x4001000, f_access_type = None, far_el1 = None,
           far_el2 = Some 0x4001000\<rparr>\<rparr>"
    using g h1 by blast
  have b: "s1_fault (fst (s1_walk_levels ?w1 scenario_va READ True [2, 3] 0x4002000 False False
      0 [])) = Some \<lparr>fault_type = TRANSLATION_FAULT, f_stage = 1, f_level = 2,
       f_address = va_value scenario_va, f_access_type = None,
       far_el1 = Some (va_value scenario_va), far_el2 = None\<rparr>"
    using g h2 h3 by simp
  show ?thesis using h1 h2 h3 b by (simp add: a)
qed

text \<open>
  C2 (what the code does). In the scenario where the stage-2 L3 entry for the stage-1
  L1 table is missing, the stage-1 walk fails with the nested fault record of stage 2,
  and the walk reports status \<open>S1_FAULT\<close>; \<open>S2_FAULT\<close> is never assigned.
\<close>

theorem nested_s2_fault_status:
  "wr_fault (fst (PageTableWalker_walk s2fault_walker scenario_va READ True)) =
     Some \<lparr>fault_type = TRANSLATION_FAULT, f_stage = 2, f_level = 3, f_address = 0x4001000,
       f_access_type = None, far_el1 = None, far_el2 = Some 0x4001000\<rparr> \<and>
   wr_status (fst (PageTableWalker_walk s2fault_walker scenario_va READ True)) = S1_FAULT \<and>
   wr_status (fst (PageTableWalker_walk s2fault_walker scenario_va READ True)) \<noteq> S2_FAULT"
  by code_simp

lemma walk_status_not_S2_FAULT:
  "wr_status (fst (PageTableWalker_walk self va access_type is_el0)) \<noteq> S2_FAULT"
  by (simp add: walk_result Let_def)

end
